theory Spec2Isabelle
  imports Complex_Main "HOL-Library.Log_Nat"
begin

section \<open>Python values and exceptions\<close>

text \<open>
  The pipeline is Python. Every \<^verbatim>\<open>raise\<close> of the source and every exception of a
  built-in the source calls is a value of \<open>exn\<close>; a function that may raise returns
  \<open>exn + 'a\<close> with \<open>Inl\<close> for the exception. Strings are lists of characters; the
  locators and field names of the remote API are ASCII, and a character outside ASCII is
  neither a digit nor white space here.
\<close>

datatype exn =
    KeyError string
  | TypeError
  | ValueError
  | IndexError
  | AttributeError
  | OverflowError
  | ZeroDivisionError
  | AssertionError
  | NetworkError nat
  | IntegrityError

definition to_option :: "exn + 'a \<Rightarrow> 'a option" where
  "to_option r = (case r of Inl _ \<Rightarrow> None | Inr v \<Rightarrow> Some v)"

subsection \<open>\<^verbatim>\<open>str.rstrip\<close>, \<^verbatim>\<open>str.split\<close>, \<^verbatim>\<open>xs[-1]\<close>\<close>

definition rstrip :: "char \<Rightarrow> string \<Rightarrow> string" where
  "rstrip c s = rev (dropWhile (\<lambda>x. x = c) (rev s))"

fun split_on :: "char \<Rightarrow> string \<Rightarrow> string list" where
  "split_on c [] = [[]]"
| "split_on c (x # xs) =
     (let r = split_on c xs in if x = c then [] # r else (x # hd r) # tl r)"

definition py_last :: "'a list \<Rightarrow> exn + 'a" where
  "py_last xs = (if xs = [] then Inl IndexError else Inr (last xs))"

subsection \<open>\<^verbatim>\<open>int(str)\<close>\<close>

text \<open>
  \<^verbatim>\<open>int(s)\<close> in base ten. A string is a list of code points below 256 (a HOL
  \<^typ>\<open>char\<close>); among those the decimal digits are \<^verbatim>\<open>0\<close> to \<^verbatim>\<open>9\<close>, and the white space
  that \<^verbatim>\<open>int\<close> skips at both ends is the blank, the five controls \<^verbatim>\<open>\t \n \v \f \r\<close>,
  and the two Latin-1 spaces U+0085 and U+00A0. The separators U+001C to U+001F are white
  space for \<^verbatim>\<open>str.isspace\<close> but not for \<^verbatim>\<open>int\<close>. One sign is allowed, and the digits may
  be grouped by single underscores. A literal of more than \<^verbatim>\<open>sys.get_int_max_str_digits()\<close>
  digits (4300 unless the interpreter is configured otherwise; leading zeros count, the
  sign, the underscores and the white space do not) is refused. Every refusal is a
  \<^verbatim>\<open>ValueError\<close>.
\<close>

definition is_space :: "char \<Rightarrow> bool" where
  "is_space c = (c \<in> set [CHR 0x20, CHR 0x09, CHR 0x0A, CHR 0x0B, CHR 0x0C, CHR 0x0D,
                           CHR 0x85, CHR 0xA0])"

definition is_digit :: "char \<Rightarrow> bool" where
  "is_digit c = (c \<in> set ''0123456789'')"

definition digit_val :: "char \<Rightarrow> nat" where
  "digit_val c = of_char c - 48"

definition strip :: "string \<Rightarrow> string" where
  "strip s = rev (dropWhile is_space (rev (dropWhile is_space s)))"

fun parse_digits :: "nat \<Rightarrow> string \<Rightarrow> nat option" where
  "parse_digits acc [] = Some acc"
| "parse_digits acc (c # cs) =
     (if is_digit c then parse_digits (acc * 10 + digit_val c) cs
      else if c = CHR ''_'' then
        (case cs of
           [] \<Rightarrow> None
         | d # _ \<Rightarrow> if is_digit d then parse_digits acc cs else None)
      else None)"

definition parse_nat :: "string \<Rightarrow> nat option" where
  "parse_nat s =
     (case s of
        [] \<Rightarrow> None
      | c # cs \<Rightarrow> if is_digit c then parse_digits (digit_val c) cs else None)"

definition int_max_str_digits :: nat where
  "int_max_str_digits = 4300"

definition py_int_str :: "string \<Rightarrow> exn + int" where
  "py_int_str s =
     (let t = strip s;
          (neg, body) =
            (case t of
               [] \<Rightarrow> (False, t)
             | c # cs \<Rightarrow>
                 if c = CHR ''-'' then (True, cs)
                 else if c = CHR ''+'' then (False, cs)
                 else (False, t))
      in case parse_nat body of
           None \<Rightarrow> Inl ValueError
         | Some n \<Rightarrow>
             if int_max_str_digits < length (filter is_digit body) then Inl ValueError
             else Inr (if neg then - int n else int n))"

section \<open>Extract: the id of a reference locator\<close>

text \<open>
  \<^verbatim>\<open>
  def _id_from_url(url: str) -> int:
      return int(url.rstrip("/").split("/")[-1])
  \<close>
\<close>

definition id_from_url :: "string \<Rightarrow> exn + int" where
  "id_from_url url =
     (case py_last (split_on CHR ''/'' (rstrip CHR ''/'' url)) of
        Inl e \<Rightarrow> Inl e
      | Inr seg \<Rightarrow> py_int_str seg)"

text \<open>
  The specification's wording of the same extraction: split the locator on \<open>/\<close>, drop the
  empty trailing segment, parse the last segment as an integer. It names no exception, so
  the result is an option.
\<close>

definition spec_locator_id :: "string \<Rightarrow> int option" where
  "spec_locator_id url =
     (let segs = split_on CHR ''/'' url;
          segs' = (if last segs = [] then butlast segs else segs)
      in if segs' = [] then None else to_option (py_int_str (last segs')))"

text \<open>The same wording with every empty trailing segment dropped, not only one.\<close>

definition drop_trailing_empty :: "string list \<Rightarrow> string list" where
  "drop_trailing_empty segs = rev (dropWhile (\<lambda>s. s = []) (rev segs))"

definition spec_locator_id_all :: "string \<Rightarrow> int option" where
  "spec_locator_id_all url =
     (let segs = drop_trailing_empty (split_on CHR ''/'' url)
      in if segs = [] then None else to_option (py_int_str (last segs)))"

section \<open>Python floats\<close>

text \<open>
  A Python \<^verbatim>\<open>float\<close> is an IEEE-754 binary64 value: a finite one is the rational
  \<open>m * 2 ^ e\<close> with \<open>\<bar>m\<bar> < 2 ^ 53\<close> and \<open>- 1074 \<le> e \<le> 971\<close>. The two zeros
  are identified. Every arithmetic operation rounds its exact result to the nearest
  double, ties to the even significand; a magnitude that rounds to \<open>2 ^ 53 * 2 ^ 971\<close>
  or more is infinite.
\<close>

datatype pyfloat = Finite rat | PosInf | NegInf | NaN

text \<open>\<open>ilog2 a\<close> is the exponent \<open>e\<close> with \<open>2 ^ e \<le> a < 2 ^ (e + 1)\<close>, for \<open>0 < a\<close>.\<close>

definition ilog2 :: "rat \<Rightarrow> int" where
  "ilog2 a =
     (let (p, q) = quotient_of a; e = bitlen p - bitlen q
      in if 2 powi e \<le> a then e else e - 1)"

definition round_half_even :: "rat \<Rightarrow> int" where
  "round_half_even x =
     (let f = \<lfloor>x\<rfloor>; d = x - of_int f
      in if d < 1 / 2 then f else if 1 / 2 < d then f + 1 else if even f then f else f + 1)"

definition round_double :: "rat \<Rightarrow> pyfloat" where
  "round_double q =
     (if q = 0 then Finite 0
      else
        let a = \<bar>q\<bar>;
            e = max (ilog2 a - 52) (- 1074);
            m = round_half_even (a / 2 powi e)
        in if 971 < e \<or> (e = 971 \<and> 2 ^ 53 \<le> m) then (if 0 < q then PosInf else NegInf)
           else Finite (if 0 < q then of_int m * 2 powi e else - (of_int m * 2 powi e)))"

text \<open>\<^verbatim>\<open>float(n)\<close> for an integer: correctly rounded, \<^verbatim>\<open>OverflowError\<close> beyond the range.\<close>

definition float_of_int :: "int \<Rightarrow> exn + pyfloat" where
  "float_of_int n =
     (case round_double (of_int n) of
        Finite v \<Rightarrow> Inr (Finite v)
      | _ \<Rightarrow> Inl OverflowError)"

definition float_is_zero :: "pyfloat \<Rightarrow> bool" where
  "float_is_zero x = (x = Finite 0)"

text \<open>\<^verbatim>\<open>x > 0\<close> for a float \<open>x\<close>.\<close>

definition float_gt0 :: "pyfloat \<Rightarrow> bool" where
  "float_gt0 x = (case x of Finite v \<Rightarrow> 0 < v | PosInf \<Rightarrow> True | _ \<Rightarrow> False)"

definition float_lt0 :: "pyfloat \<Rightarrow> bool" where
  "float_lt0 x = (case x of Finite v \<Rightarrow> v < 0 | NegInf \<Rightarrow> True | _ \<Rightarrow> False)"

text \<open>\<^verbatim>\<open>x * y\<close> for floats: never raises.\<close>

definition float_mul :: "pyfloat \<Rightarrow> pyfloat \<Rightarrow> pyfloat" where
  "float_mul x y =
     (case (x, y) of
        (Finite a, Finite b) \<Rightarrow> round_double (a * b)
      | (NaN, _) \<Rightarrow> NaN
      | (_, NaN) \<Rightarrow> NaN
      | _ \<Rightarrow>
          if float_is_zero x \<or> float_is_zero y then NaN
          else if float_lt0 x = float_lt0 y then PosInf else NegInf)"

text \<open>\<^verbatim>\<open>x / y\<close> for floats: \<^verbatim>\<open>ZeroDivisionError\<close> on a zero divisor.\<close>

definition float_truediv :: "pyfloat \<Rightarrow> pyfloat \<Rightarrow> exn + pyfloat" where
  "float_truediv x y =
     (if float_is_zero y then Inl ZeroDivisionError
      else Inr
        (case (x, y) of
           (Finite a, Finite b) \<Rightarrow> round_double (a / b)
         | (NaN, _) \<Rightarrow> NaN
         | (_, NaN) \<Rightarrow> NaN
         | (Finite a, _) \<Rightarrow> Finite 0
         | (_, Finite b) \<Rightarrow> if float_lt0 x = (b < 0) then PosInf else NegInf
         | _ \<Rightarrow> NaN))"

definition bind_exn :: "exn + 'a \<Rightarrow> ('a \<Rightarrow> exn + 'b) \<Rightarrow> exn + 'b" where
  "bind_exn m f = (case m of Inl e \<Rightarrow> Inl e | Inr x \<Rightarrow> f x)"

text \<open>\<^verbatim>\<open>n / y\<close> for an integer \<open>n\<close> and a float \<open>y\<close>: the integer is converted first.\<close>

definition int_truediv_float :: "int \<Rightarrow> pyfloat \<Rightarrow> exn + pyfloat" where
  "int_truediv_float n y = bind_exn (float_of_int n) (\<lambda>x. float_truediv x y)"

section \<open>Decoded JSON\<close>

text \<open>
  What \<^verbatim>\<open>resp.json()\<close> returns: \<^verbatim>\<open>None\<close>, \<^verbatim>\<open>bool\<close>, \<^verbatim>\<open>int\<close>, \<^verbatim>\<open>float\<close>,
  \<^verbatim>\<open>str\<close>, \<^verbatim>\<open>list\<close> and \<^verbatim>\<open>dict\<close> with string keys. A dictionary is an association
  list read from the left.
\<close>

datatype json =
    JNull
  | JBool bool
  | JInt int
  | JFloat pyfloat
  | JStr string
  | JList "json list"
  | JDict "(string \<times> json) list"

text \<open>\<^verbatim>\<open>obj[key]\<close> with a string key.\<close>

definition py_getitem :: "json \<Rightarrow> string \<Rightarrow> exn + json" where
  "py_getitem obj k =
     (case obj of
        JDict kvs \<Rightarrow> (case map_of kvs k of None \<Rightarrow> Inl (KeyError k) | Some v \<Rightarrow> Inr v)
      | _ \<Rightarrow> Inl TypeError)"

text \<open>\<^verbatim>\<open>obj.get(key, default)\<close>: only a dictionary has the method.\<close>

definition py_get :: "json \<Rightarrow> string \<Rightarrow> json \<Rightarrow> exn + json" where
  "py_get obj k d =
     (case obj of
        JDict kvs \<Rightarrow> Inr (case map_of kvs k of None \<Rightarrow> d | Some v \<Rightarrow> v)
      | _ \<Rightarrow> Inl AttributeError)"

text \<open>\<^verbatim>\<open>int(x)\<close>: a float is truncated towards zero.\<close>

definition py_int :: "json \<Rightarrow> exn + int" where
  "py_int x =
     (case x of
        JInt n \<Rightarrow> Inr n
      | JBool b \<Rightarrow> Inr (if b then 1 else 0)
      | JFloat f \<Rightarrow>
          (case f of
             Finite v \<Rightarrow> Inr (if 0 \<le> v then \<lfloor>v\<rfloor> else \<lceil>v\<rceil>)
           | NaN \<Rightarrow> Inl ValueError
           | _ \<Rightarrow> Inl OverflowError)
      | JStr s \<Rightarrow> py_int_str s
      | _ \<Rightarrow> Inl TypeError)"

text \<open>\<^verbatim>\<open>bool(x)\<close>.\<close>

definition py_bool :: "json \<Rightarrow> bool" where
  "py_bool x =
     (case x of
        JNull \<Rightarrow> False
      | JBool b \<Rightarrow> b
      | JInt n \<Rightarrow> n \<noteq> 0
      | JFloat f \<Rightarrow> \<not> float_is_zero f
      | JStr s \<Rightarrow> s \<noteq> []
      | JList xs \<Rightarrow> xs \<noteq> []
      | JDict kvs \<Rightarrow> kvs \<noteq> [])"

text \<open>\<^verbatim>\<open>for x in obj\<close>: a dictionary yields its keys, a string its characters.\<close>

definition py_iter :: "json \<Rightarrow> exn + json list" where
  "py_iter obj =
     (case obj of
        JList xs \<Rightarrow> Inr xs
      | JDict kvs \<Rightarrow> Inr (map JStr (remdups (map fst kvs)))
      | JStr s \<Rightarrow> Inr (map (\<lambda>c. JStr [c]) s)
      | _ \<Rightarrow> Inl TypeError)"

text \<open>A comprehension or loop body that may raise: the first exception ends it.\<close>

fun map_exn :: "('a \<Rightarrow> exn + 'b) \<Rightarrow> 'a list \<Rightarrow> exn + 'b list" where
  "map_exn f [] = Inr []"
| "map_exn f (x # xs) =
     bind_exn (f x) (\<lambda>y. bind_exn (map_exn f xs) (\<lambda>ys. Inr (y # ys)))"

section \<open>Transform\<close>

text \<open>
  \<^verbatim>\<open>
  @dataclass
  class TPokemon:
      id: int
      name: str
      base_experience: int | None
      height_cm: int
      weight_kg: float
      bmi: float | None
      sprite_url: str | None
      types: List[Tuple[int, str, int]]          # (type_id, type_name, slot)
      abilities: List[Tuple[int, str, bool, int]]  # (ability_id, name, is_hidden, slot)
      stats: List[Tuple[int, str, int, int]]     # (stat_id, name, base_stat, effort)
  \<close>
  The fields that \<^verbatim>\<open>transform_one\<close> copies from the payload without a conversion
  (\<^verbatim>\<open>base_experience\<close>, \<^verbatim>\<open>sprite_url\<close> and the reference names) hold whatever JSON
  value the payload has there, \<open>JNull\<close> for \<^verbatim>\<open>None\<close>.
\<close>

record tpokemon =
  tp_id :: int
  tp_name :: string
  tp_base_experience :: json
  tp_height_cm :: int
  tp_weight_kg :: pyfloat
  tp_bmi :: "pyfloat option"
  tp_sprite_url :: json
  tp_types :: "(int \<times> json \<times> int) list"
  tp_abilities :: "(int \<times> json \<times> bool \<times> int) list"
  tp_stats :: "(int \<times> json \<times> int \<times> int) list"

text \<open>
  \<^verbatim>\<open>
  def _to_cm(dm: int) -> int:
      return int(dm * 10)

  def _to_kg(hg: int) -> float:
      return hg / 10.0

  def _bmi(height_cm: int, weight_kg: float) -> float | None:
      m = height_cm / 100.0
      return (weight_kg / (m * m)) if m > 0 else None
  \<close>
\<close>

definition to_cm :: "int \<Rightarrow> int" where
  "to_cm dm = dm * 10"

definition to_kg :: "int \<Rightarrow> exn + pyfloat" where
  "to_kg hg = int_truediv_float hg (Finite 10)"

definition bmi :: "int \<Rightarrow> pyfloat \<Rightarrow> exn + pyfloat option" where
  "bmi height_cm weight_kg =
     bind_exn (int_truediv_float height_cm (Finite 100)) (\<lambda>m.
       if float_gt0 m
       then bind_exn (float_truediv weight_kg (float_mul m m)) (\<lambda>b. Inr (Some b))
       else Inr None)"

text \<open>\<^verbatim>\<open>_id_from_url\<close> applied to a JSON value: only a string has \<^verbatim>\<open>rstrip\<close>.\<close>

definition id_from_url_json :: "json \<Rightarrow> exn + int" where
  "id_from_url_json v = (case v of JStr url \<Rightarrow> id_from_url url | _ \<Rightarrow> Inl AttributeError)"

text \<open>
  The three loops of \<^verbatim>\<open>transform_one\<close>, one entry each:
  \<^verbatim>\<open>
  t_name = t["type"]["name"]
  t_id = _id_from_url(t["type"]["url"])
  types.append((t_id, t_name, int(t["slot"])))
  \<close>
\<close>

definition transform_type :: "json \<Rightarrow> exn + (int \<times> json \<times> int)" where
  "transform_type t =
     bind_exn (py_getitem t ''type'') (\<lambda>ref.
     bind_exn (py_getitem ref ''name'') (\<lambda>t_name.
     bind_exn (py_getitem t ''type'') (\<lambda>ref'.
     bind_exn (py_getitem ref' ''url'') (\<lambda>url.
     bind_exn (id_from_url_json url) (\<lambda>t_id.
     bind_exn (py_getitem t ''slot'') (\<lambda>slot.
     bind_exn (py_int slot) (\<lambda>slot'.
     Inr (t_id, t_name, slot'))))))))"

definition transform_ability :: "json \<Rightarrow> exn + (int \<times> json \<times> bool \<times> int)" where
  "transform_ability a =
     bind_exn (py_getitem a ''ability'') (\<lambda>ref.
     bind_exn (py_getitem ref ''name'') (\<lambda>a_name.
     bind_exn (py_getitem a ''ability'') (\<lambda>ref'.
     bind_exn (py_getitem ref' ''url'') (\<lambda>url.
     bind_exn (id_from_url_json url) (\<lambda>a_id.
     bind_exn (py_getitem a ''is_hidden'') (\<lambda>hidden.
     bind_exn (py_getitem a ''slot'') (\<lambda>slot.
     bind_exn (py_int slot) (\<lambda>slot'.
     Inr (a_id, a_name, py_bool hidden, slot')))))))))"

definition transform_stat :: "json \<Rightarrow> exn + (int \<times> json \<times> int \<times> int)" where
  "transform_stat s =
     bind_exn (py_getitem s ''stat'') (\<lambda>ref.
     bind_exn (py_getitem ref ''name'') (\<lambda>s_name.
     bind_exn (py_getitem s ''stat'') (\<lambda>ref'.
     bind_exn (py_getitem ref' ''url'') (\<lambda>url.
     bind_exn (id_from_url_json url) (\<lambda>s_id.
     bind_exn (py_getitem s ''base_stat'') (\<lambda>base.
     bind_exn (py_int base) (\<lambda>base'.
     bind_exn (py_getitem s ''effort'') (\<lambda>effort.
     bind_exn (py_int effort) (\<lambda>effort'.
     Inr (s_id, s_name, base', effort'))))))))))"

text \<open>
  \<^verbatim>\<open>transform_one\<close>, statement by statement. \<open>py_str\<close> is the built-in \<^verbatim>\<open>str\<close> on
  a value that is not a string (on a string it is the identity).
\<close>

definition str_of :: "(json \<Rightarrow> string) \<Rightarrow> json \<Rightarrow> string" where
  "str_of py_str v = (case v of JStr s \<Rightarrow> s | _ \<Rightarrow> py_str v)"

definition transform_one :: "(json \<Rightarrow> string) \<Rightarrow> json \<Rightarrow> exn + tpokemon" where
  "transform_one py_str payload =
     bind_exn (py_getitem payload ''id'') (\<lambda>id_v.
     bind_exn (py_int id_v) (\<lambda>pid.
     bind_exn (py_getitem payload ''name'') (\<lambda>name_v.
     bind_exn (py_get payload ''base_experience'' JNull) (\<lambda>base_xp.
     bind_exn (py_getitem payload ''height'') (\<lambda>height_v.
     bind_exn (py_int height_v) (\<lambda>dm.
     bind_exn (py_getitem payload ''weight'') (\<lambda>weight_v.
     bind_exn (py_int weight_v) (\<lambda>hg.
     bind_exn (to_kg hg) (\<lambda>weight_kg.
     bind_exn (bmi (to_cm dm) weight_kg) (\<lambda>bmi_v.
     bind_exn (py_get payload ''sprites'' (JDict [])) (\<lambda>sprites.
     bind_exn (py_get sprites ''front_default'' JNull) (\<lambda>sprite.
     bind_exn (py_get payload ''types'' (JList [])) (\<lambda>types_v.
     bind_exn (py_iter types_v) (\<lambda>ts.
     bind_exn (map_exn transform_type ts) (\<lambda>types.
     bind_exn (py_get payload ''abilities'' (JList [])) (\<lambda>abilities_v.
     bind_exn (py_iter abilities_v) (\<lambda>as.
     bind_exn (map_exn transform_ability as) (\<lambda>abilities.
     bind_exn (py_get payload ''stats'' (JList [])) (\<lambda>stats_v.
     bind_exn (py_iter stats_v) (\<lambda>ss.
     bind_exn (map_exn transform_stat ss) (\<lambda>stats.
     Inr \<lparr> tp_id = pid,
           tp_name = str_of py_str name_v,
           tp_base_experience = base_xp,
           tp_height_cm = to_cm dm,
           tp_weight_kg = weight_kg,
           tp_bmi = bmi_v,
           tp_sprite_url = sprite,
           tp_types = types,
           tp_abilities = abilities,
           tp_stats = stats \<rparr>)))))))))))))))))))))"

section \<open>Configuration and the remote API\<close>

text \<open>
  \<^verbatim>\<open>
  POKEAPI_BASE: Final[str] = "https://pokeapi.co/api/v2"
  MAX_CONCURRENCY: Final[int] = int(os.getenv("MAX_CONCURRENCY", "8"))
  MAX_RETRIES: Final[int] = int(os.getenv("MAX_RETRIES", "3"))
  \<close>
  The two limits come from the environment, so they are any integers.
\<close>

record config =
  POKEAPI_BASE :: string
  MAX_CONCURRENCY :: int
  MAX_RETRIES :: int

definition default_config :: config where
  "default_config =
     \<lparr> POKEAPI_BASE = ''https://pokeapi.co/api/v2'', MAX_CONCURRENCY = 8, MAX_RETRIES = 3 \<rparr>"

text \<open>
  The remote API is a parameter: \<open>net c url k\<close> is what attempt number \<open>k\<close> (from 0) of
  call \<open>c\<close> gets for \<open>url\<close> from
  \<^verbatim>\<open>client.get(url, timeout=...)\<close>, \<^verbatim>\<open>resp.raise_for_status()\<close>, \<^verbatim>\<open>resp.json()\<close>:
  the decoded body, or the exception one of the three raised. Call 0 is the listing,
  call \<open>i + 1\<close> the detail fetch of target \<open>i\<close>.
\<close>

type_synonym network = "nat \<Rightarrow> string \<Rightarrow> nat \<Rightarrow> exn + json"

text \<open>
  \<^verbatim>\<open>
  async def _fetch_json(client, url):
      last_exc: Exception | None = None
      for _ in range(MAX_RETRIES):
          try:
              resp = await client.get(url, timeout=HTTP_TIMEOUT_SECONDS)
              resp.raise_for_status()
              return resp.json()
          except Exception as exc:  # network or 5xx
              last_exc = exc
              await asyncio.sleep(0.5)
      assert last_exc is not None
      raise last_exc
  \<close>
  Besides the result, the model returns how many attempts were made and the delays
  slept, in milliseconds.
\<close>

record fetched =
  result :: "exn + json"
  attempts :: nat
  sleeps :: "nat list"

fun fetch_loop ::
  "(nat \<Rightarrow> exn + json) \<Rightarrow> nat \<Rightarrow> nat \<Rightarrow> nat list \<Rightarrow> exn option \<Rightarrow> fetched" where
  "fetch_loop get 0 k sl last_exc =
     \<lparr> result = (case last_exc of None \<Rightarrow> Inl AssertionError | Some e \<Rightarrow> Inl e),
       attempts = k, sleeps = sl \<rparr>"
| "fetch_loop get (Suc n) k sl last_exc =
     (case get k of
        Inr body \<Rightarrow> \<lparr> result = Inr body, attempts = Suc k, sleeps = sl \<rparr>
      | Inl exc \<Rightarrow> fetch_loop get n (Suc k) (sl @ [500]) (Some exc))"

definition fetch_json :: "config \<Rightarrow> (nat \<Rightarrow> exn + json) \<Rightarrow> fetched" where
  "fetch_json cfg get = fetch_loop get (nat (MAX_RETRIES cfg)) 0 [] None"

text \<open>\<^verbatim>\<open>str(n)\<close> of an integer, as an f-string formats it.\<close>

fun show_nat :: "nat \<Rightarrow> string" where
  "show_nat n =
     (if n < 10 then [char_of (48 + n)]
      else show_nat (n div 10) @ [char_of (48 + n mod 10)])"

declare show_nat.simps [simp del]

definition show_int :: "int \<Rightarrow> string" where
  "show_int i = (if i < 0 then CHR ''-'' # show_nat (nat (- i)) else show_nat (nat i))"

text \<open>
  \<^verbatim>\<open>
  async def fetch_pokemon_list(limit, offset=0):
      url = f"{POKEAPI_BASE}/pokemon?limit={limit}&offset={offset}"
      async with httpx.AsyncClient() as client:
          data = await _fetch_json(client, url)
          return data.get("results", [])
  \<close>
\<close>

definition fetch_pokemon_list :: "config \<Rightarrow> network \<Rightarrow> int \<Rightarrow> int \<Rightarrow> exn + json" where
  "fetch_pokemon_list cfg net limit offset =
     (let url = POKEAPI_BASE cfg @ ''/pokemon?limit='' @ show_int limit
                  @ ''&offset='' @ show_int offset
      in bind_exn (result (fetch_json cfg (net 0 url))) (\<lambda>data.
           py_get data ''results'' (JList [])))"

text \<open>\<^verbatim>\<open>target.startswith("http")\<close>\<close>

definition startswith :: "string \<Rightarrow> string \<Rightarrow> bool" where
  "startswith p s = (take (length p) s = p)"

text \<open>
  \<^verbatim>\<open>
  async def _one(target):
      async with sem:
          url = target if target.startswith("http") else f"{POKEAPI_BASE}/pokemon/{target}"
          async with httpx.AsyncClient() as client:
              return await _fetch_json(client, url)
  \<close>
  A target that is not a string has no \<^verbatim>\<open>startswith\<close>.
\<close>

definition one_url :: "config \<Rightarrow> string \<Rightarrow> string" where
  "one_url cfg target =
     (if startswith ''http'' target then target else POKEAPI_BASE cfg @ ''/pokemon/'' @ target)"

definition one :: "config \<Rightarrow> network \<Rightarrow> nat \<Rightarrow> json \<Rightarrow> fetched" where
  "one cfg net i target =
     (case target of
        JStr t \<Rightarrow> fetch_json cfg (net (Suc i) (one_url cfg t))
      | _ \<Rightarrow> \<lparr> result = Inl AttributeError, attempts = 0, sleeps = [] \<rparr>)"

text \<open>
  \<^verbatim>\<open>asyncio.gather(*aws)\<close>: the results in the order of the arguments when every task
  returns; otherwise the exception of the task that raised first. \<open>finish i\<close> is the time
  at which task \<open>i\<close> ends.
\<close>

definition gather :: "(nat \<Rightarrow> nat) \<Rightarrow> (exn + 'a) list \<Rightarrow> exn + 'a list" where
  "gather finish rs =
     (case filter (\<lambda>i. isl (rs ! i)) [0..<length rs] of
        [] \<Rightarrow> Inr (map projr rs)
      | i # js \<Rightarrow> Inl (projl (rs ! arg_min_list finish (i # js))))"

text \<open>
  \<^verbatim>\<open>
  async def fetch_pokemon_details(names_or_urls):
      sem = asyncio.Semaphore(MAX_CONCURRENCY)
      ...
      return await asyncio.gather(*(_one(t) for t in names_or_urls))
  \<close>
  \<^verbatim>\<open>asyncio.Semaphore\<close> raises \<^verbatim>\<open>ValueError\<close> for a negative value. With the value 0
  no task ever passes \<^verbatim>\<open>async with sem\<close>, and \<^verbatim>\<open>gather\<close> of at least one task never
  returns: that is the result \<open>None\<close>.
\<close>

definition fetch_all :: "config \<Rightarrow> network \<Rightarrow> json list \<Rightarrow> fetched list" where
  "fetch_all cfg net targets = map (\<lambda>(i, t). one cfg net i t) (enumerate 0 targets)"

definition fetch_pokemon_details ::
  "config \<Rightarrow> network \<Rightarrow> (nat \<Rightarrow> nat) \<Rightarrow> json list \<Rightarrow> (exn + json list) option" where
  "fetch_pokemon_details cfg net finish targets =
     (if MAX_CONCURRENCY cfg < 0 then Some (Inl ValueError)
      else if MAX_CONCURRENCY cfg = 0 \<and> targets \<noteq> [] then None
      else Some (gather finish (map result (fetch_all cfg net targets))))"

text \<open>
  \<^verbatim>\<open>
  async def extract_transform(limit, offset=0):
      listing = await fetch_pokemon_list(limit=limit, offset=offset)
      targets = [item["name"] for item in listing]
      details = await fetch_pokemon_details(targets)
      return [transform_one(p) for p in details]
  \<close>
\<close>

definition extract_transform ::
  "config \<Rightarrow> network \<Rightarrow> (nat \<Rightarrow> nat) \<Rightarrow> (json \<Rightarrow> string) \<Rightarrow> int \<Rightarrow> int
     \<Rightarrow> (exn + tpokemon list) option" where
  "extract_transform cfg net finish py_str limit offset =
     (case fetch_pokemon_list cfg net limit offset of
        Inl e \<Rightarrow> Some (Inl e)
      | Inr listing \<Rightarrow>
          (case bind_exn (py_iter listing) (map_exn (\<lambda>item. py_getitem item ''name'')) of
             Inl e \<Rightarrow> Some (Inl e)
           | Inr targets \<Rightarrow>
               (case fetch_pokemon_details cfg net finish targets of
                  None \<Rightarrow> None
                | Some (Inl e) \<Rightarrow> Some (Inl e)
                | Some (Inr details) \<Rightarrow> Some (map_exn (transform_one py_str) details))))"

section \<open>The semaphore of \<^verbatim>\<open>fetch_pokemon_details\<close>\<close>

text \<open>
  The interleavings of the tasks that \<^verbatim>\<open>gather\<close> starts, as a transition system. A task
  is created, may wait at \<^verbatim>\<open>async with sem\<close>, fetches while it is inside the block, and
  is done when it has left it, by \<^verbatim>\<open>return\<close> or by an exception. The semaphore holds the
  number of free slots: entering takes one, and needs one; leaving gives it back. A task
  that is not inside the block may also be cancelled.
\<close>

datatype task = Created | Waiting | Fetching | Done

record sched =
  sem_value :: nat
  tasks :: "task list"

definition in_flight :: "sched \<Rightarrow> nat" where
  "in_flight s = length (filter (\<lambda>t. t = Fetching) (tasks s))"

inductive step :: "sched \<Rightarrow> sched \<Rightarrow> bool" where
  acquire:
    "i < length (tasks s) \<Longrightarrow> tasks s ! i = Created \<or> tasks s ! i = Waiting \<Longrightarrow>
     0 < sem_value s \<Longrightarrow>
     step s (s\<lparr> sem_value := sem_value s - 1, tasks := (tasks s)[i := Fetching] \<rparr>)"
| block:
    "i < length (tasks s) \<Longrightarrow> tasks s ! i = Created \<Longrightarrow> sem_value s = 0 \<Longrightarrow>
     step s (s\<lparr> tasks := (tasks s)[i := Waiting] \<rparr>)"
| release:
    "i < length (tasks s) \<Longrightarrow> tasks s ! i = Fetching \<Longrightarrow>
     step s (s\<lparr> sem_value := sem_value s + 1, tasks := (tasks s)[i := Done] \<rparr>)"
| cancel:
    "i < length (tasks s) \<Longrightarrow> tasks s ! i = Created \<or> tasks s ! i = Waiting \<Longrightarrow>
     step s (s\<lparr> tasks := (tasks s)[i := Done] \<rparr>)"

definition initial :: "config \<Rightarrow> nat \<Rightarrow> sched" where
  "initial cfg n = \<lparr> sem_value = nat (MAX_CONCURRENCY cfg), tasks = replicate n Created \<rparr>"

inductive reachable :: "config \<Rightarrow> nat \<Rightarrow> sched \<Rightarrow> bool" where
  start: "0 \<le> MAX_CONCURRENCY cfg \<Longrightarrow> reachable cfg n (initial cfg n)"
| advance: "reachable cfg n s \<Longrightarrow> step s s' \<Longrightarrow> reachable cfg n s'"

section \<open>The relational store\<close>

text \<open>
  The seven tables of \<^verbatim>\<open>models.py\<close>, each a list of rows in insertion order with its
  primary key in front. \<^verbatim>\<open>pokemon.loaded_at\<close> has a server default and is the only
  column the pipeline never sets: an object built by \<^verbatim>\<open>Pokemon(...)\<close> has none.
\<close>

type_synonym ('k, 'r) table = "('k \<times> 'r) list"

record pokemon_row =
  p_name :: string
  p_base_experience :: json
  p_height_cm :: int
  p_weight_kg :: pyfloat
  p_bmi :: "pyfloat option"
  p_sprite_url :: json
  p_loaded_at :: "nat option"

record store =
  pokemon :: "(int, pokemon_row) table"
  type_tbl :: "(int, json) table"
  ability :: "(int, json) table"
  stat :: "(int, json) table"
  pokemon_type :: "(int \<times> int, int) table"
  pokemon_ability :: "(int \<times> int, bool \<times> int) table"
  pokemon_stat :: "(int \<times> int, int \<times> int) table"

definition empty_store :: store where
  "empty_store =
     \<lparr> pokemon = [], type_tbl = [], ability = [], stat = [],
       pokemon_type = [], pokemon_ability = [], pokemon_stat = [] \<rparr>"

definition keys :: "('k, 'r) table \<Rightarrow> 'k list" where
  "keys t = map fst t"

text \<open>The primary keys of a store are unique.\<close>

definition primary_keys :: "store \<Rightarrow> bool" where
  "primary_keys st \<longleftrightarrow>
     distinct (keys (pokemon st)) \<and> distinct (keys (type_tbl st)) \<and>
     distinct (keys (ability st)) \<and> distinct (keys (stat st)) \<and>
     distinct (keys (pokemon_type st)) \<and> distinct (keys (pokemon_ability st)) \<and>
     distinct (keys (pokemon_stat st))"

text \<open>
  The other constraints the models declare: \<^verbatim>\<open>unique=True\<close> and \<^verbatim>\<open>nullable=False\<close> on
  the four \<^verbatim>\<open>name\<close> columns, and the foreign keys of the three association tables
  (the engine is opened with \<^verbatim>\<open>PRAGMA foreign_keys=ON\<close>).
\<close>

definition unique_names :: "store \<Rightarrow> bool" where
  "unique_names st \<longleftrightarrow>
     distinct (map (\<lambda>(k, r). p_name r) (pokemon st)) \<and>
     distinct (map snd (type_tbl st)) \<and>
     distinct (map snd (ability st)) \<and>
     distinct (map snd (stat st))"

definition names_not_null :: "store \<Rightarrow> bool" where
  "names_not_null st \<longleftrightarrow>
     list_all (\<lambda>(k, n). n \<noteq> JNull) (type_tbl st) \<and>
     list_all (\<lambda>(k, n). n \<noteq> JNull) (ability st) \<and>
     list_all (\<lambda>(k, n). n \<noteq> JNull) (stat st)"

definition foreign_keys :: "store \<Rightarrow> bool" where
  "foreign_keys st \<longleftrightarrow>
     list_all (\<lambda>((pid, rid), r). pid \<in> set (keys (pokemon st)) \<and> rid \<in> set (keys (type_tbl st)))
       (pokemon_type st) \<and>
     list_all (\<lambda>((pid, rid), r). pid \<in> set (keys (pokemon st)) \<and> rid \<in> set (keys (ability st)))
       (pokemon_ability st) \<and>
     list_all (\<lambda>((pid, rid), r). pid \<in> set (keys (pokemon st)) \<and> rid \<in> set (keys (stat st)))
       (pokemon_stat st)"

definition constraints :: "store \<Rightarrow> bool" where
  "constraints st \<longleftrightarrow> unique_names st \<and> names_not_null st \<and> foreign_keys st"

definition row_counts :: "store \<Rightarrow> nat list" where
  "row_counts st =
     [length (pokemon st), length (type_tbl st), length (ability st), length (stat st),
      length (pokemon_type st), length (pokemon_ability st), length (pokemon_stat st)]"

section \<open>The ORM session\<close>

text \<open>
  \<^verbatim>\<open>SessionLocal = sessionmaker(bind=get_engine(), autoflush=False, autocommit=False, ...)\<close>

  A session works on one transaction. \<open>committed\<close> is what the database holds durably;
  \<open>persistent\<close> are the rows of the database as the session's objects have them, with
  the attributes set so far; \<open>pending\<close> are the new objects, which reach the database
  only when the session is flushed, and without autoflush that is at the commit.
  \<open>clock k\<close> is the time the server default gives the \<^verbatim>\<open>pokemon\<close> row \<open>k\<close> on insertion.
\<close>

record session =
  committed :: store
  persistent :: store
  pending :: store
  clock :: "int \<Rightarrow> nat"

definition SessionLocal :: "(int \<Rightarrow> nat) \<Rightarrow> store \<Rightarrow> session" where
  "SessionLocal clk db =
     \<lparr> committed = db, persistent = db, pending = empty_store, clock = clk \<rparr>"

fun overwrite :: "('r \<Rightarrow> 'r) \<Rightarrow> 'k \<Rightarrow> ('k, 'r) table \<Rightarrow> ('k, 'r) table" where
  "overwrite f k [] = []"
| "overwrite f k ((k', r) # t) =
     (if k' = k then (k', f r) # t else (k', r) # overwrite f k t)"

text \<open>
  \<^verbatim>\<open>session.merge(obj)\<close> on one table. The session looks the primary key of \<open>obj\<close> up
  among the rows of the database: when the row is there, the attributes that \<open>obj\<close> has
  are copied onto it (\<open>copy old obj\<close>); when it is not, a copy of \<open>obj\<close> becomes pending.
  Pending objects are not found by the lookup, so merging a new key twice leaves two
  pending objects with that key.
\<close>

definition merge ::
  "('r \<Rightarrow> 'r \<Rightarrow> 'r) \<Rightarrow> 'k \<Rightarrow> 'r \<Rightarrow> ('k, 'r) table \<times> ('k, 'r) table
     \<Rightarrow> ('k, 'r) table \<times> ('k, 'r) table" where
  "merge copy k obj pp =
     (case pp of (pers, pend) \<Rightarrow>
        if k \<in> set (keys pers) then (overwrite (\<lambda>old. copy old obj) k pers, pend)
        else (pers, pend @ [(k, obj)]))"

definition copy_all :: "'r \<Rightarrow> 'r \<Rightarrow> 'r" where
  "copy_all old obj = obj"

definition copy_pokemon :: "pokemon_row \<Rightarrow> pokemon_row \<Rightarrow> pokemon_row" where
  "copy_pokemon old obj = obj\<lparr> p_loaded_at := p_loaded_at old \<rparr>"

definition merge_pokemon :: "int \<Rightarrow> pokemon_row \<Rightarrow> session \<Rightarrow> session" where
  "merge_pokemon k obj s =
     (case merge copy_pokemon k obj (pokemon (persistent s), pokemon (pending s)) of
        (a, b) \<Rightarrow> s\<lparr> persistent := (persistent s)\<lparr> pokemon := a \<rparr>,
                     pending := (pending s)\<lparr> pokemon := b \<rparr> \<rparr>)"

definition merge_type :: "int \<Rightarrow> json \<Rightarrow> session \<Rightarrow> session" where
  "merge_type k obj s =
     (case merge copy_all k obj (type_tbl (persistent s), type_tbl (pending s)) of
        (a, b) \<Rightarrow> s\<lparr> persistent := (persistent s)\<lparr> type_tbl := a \<rparr>,
                     pending := (pending s)\<lparr> type_tbl := b \<rparr> \<rparr>)"

definition merge_ability :: "int \<Rightarrow> json \<Rightarrow> session \<Rightarrow> session" where
  "merge_ability k obj s =
     (case merge copy_all k obj (ability (persistent s), ability (pending s)) of
        (a, b) \<Rightarrow> s\<lparr> persistent := (persistent s)\<lparr> ability := a \<rparr>,
                     pending := (pending s)\<lparr> ability := b \<rparr> \<rparr>)"

definition merge_stat :: "int \<Rightarrow> json \<Rightarrow> session \<Rightarrow> session" where
  "merge_stat k obj s =
     (case merge copy_all k obj (stat (persistent s), stat (pending s)) of
        (a, b) \<Rightarrow> s\<lparr> persistent := (persistent s)\<lparr> stat := a \<rparr>,
                     pending := (pending s)\<lparr> stat := b \<rparr> \<rparr>)"

definition merge_pokemon_type :: "int \<times> int \<Rightarrow> int \<Rightarrow> session \<Rightarrow> session" where
  "merge_pokemon_type k obj s =
     (case merge copy_all k obj (pokemon_type (persistent s), pokemon_type (pending s)) of
        (a, b) \<Rightarrow> s\<lparr> persistent := (persistent s)\<lparr> pokemon_type := a \<rparr>,
                     pending := (pending s)\<lparr> pokemon_type := b \<rparr> \<rparr>)"

definition merge_pokemon_ability :: "int \<times> int \<Rightarrow> bool \<times> int \<Rightarrow> session \<Rightarrow> session" where
  "merge_pokemon_ability k obj s =
     (case merge copy_all k obj (pokemon_ability (persistent s), pokemon_ability (pending s)) of
        (a, b) \<Rightarrow> s\<lparr> persistent := (persistent s)\<lparr> pokemon_ability := a \<rparr>,
                     pending := (pending s)\<lparr> pokemon_ability := b \<rparr> \<rparr>)"

definition merge_pokemon_stat :: "int \<times> int \<Rightarrow> int \<times> int \<Rightarrow> session \<Rightarrow> session" where
  "merge_pokemon_stat k obj s =
     (case merge copy_all k obj (pokemon_stat (persistent s), pokemon_stat (pending s)) of
        (a, b) \<Rightarrow> s\<lparr> persistent := (persistent s)\<lparr> pokemon_stat := a \<rparr>,
                     pending := (pending s)\<lparr> pokemon_stat := b \<rparr> \<rparr>)"

text \<open>
  The flush inserts the pending rows, table by table. A row whose primary key is in the
  table already violates the key: \<^verbatim>\<open>IntegrityError\<close>.
\<close>

fun insert_rows :: "('k \<times> 'r) list \<Rightarrow> ('k, 'r) table \<Rightarrow> exn + ('k, 'r) table" where
  "insert_rows [] t = Inr t"
| "insert_rows ((k, r) # ps) t =
     (if k \<in> set (keys t) then Inl IntegrityError else insert_rows ps (t @ [(k, r)]))"

definition server_default :: "(int \<Rightarrow> nat) \<Rightarrow> int \<times> pokemon_row \<Rightarrow> int \<times> pokemon_row" where
  "server_default clk kr =
     (case kr of (k, r) \<Rightarrow>
        (k, if p_loaded_at r = None then r\<lparr> p_loaded_at := Some (clk k) \<rparr> else r))"

definition flush :: "session \<Rightarrow> exn + store" where
  "flush s =
     bind_exn (insert_rows (map (server_default (clock s)) (pokemon (pending s)))
                 (pokemon (persistent s))) (\<lambda>t1.
     bind_exn (insert_rows (type_tbl (pending s)) (type_tbl (persistent s))) (\<lambda>t2.
     bind_exn (insert_rows (ability (pending s)) (ability (persistent s))) (\<lambda>t3.
     bind_exn (insert_rows (stat (pending s)) (stat (persistent s))) (\<lambda>t4.
     bind_exn (insert_rows (pokemon_type (pending s)) (pokemon_type (persistent s))) (\<lambda>t5.
     bind_exn (insert_rows (pokemon_ability (pending s)) (pokemon_ability (persistent s))) (\<lambda>t6.
     bind_exn (insert_rows (pokemon_stat (pending s)) (pokemon_stat (persistent s))) (\<lambda>t7.
     Inr \<lparr> pokemon = t1, type_tbl = t2, ability = t3, stat = t4,
           pokemon_type = t5, pokemon_ability = t6, pokemon_stat = t7 \<rparr>)))))))"

text \<open>
  \<^verbatim>\<open>session.commit()\<close> flushes and makes the result durable. The constraints are
  checked on the rows the transaction would commit. \<^verbatim>\<open>session.rollback()\<close> forgets
  what the session holds.
\<close>

definition commit :: "session \<Rightarrow> (exn + unit) \<times> session" where
  "commit s =
     (case flush s of
        Inl e \<Rightarrow> (Inl e, s)
      | Inr st \<Rightarrow>
          if constraints st
          then (Inr (), s\<lparr> committed := st, persistent := st, pending := empty_store \<rparr>)
          else (Inl IntegrityError, s))"

definition rollback :: "session \<Rightarrow> session" where
  "rollback s = s\<lparr> persistent := committed s, pending := empty_store \<rparr>"

text \<open>
  \<^verbatim>\<open>
  @contextmanager
  def session_scope():
      session = SessionLocal()
      try:
          yield session
          session.commit()
      except Exception:
          session.rollback()
          raise
      finally:
          session.close()
  \<close>
  \<open>body\<close> is the block under \<^verbatim>\<open>with session_scope() as session\<close>: it returns its value or
  the exception it raised, and the session as it left it. The result is what the
  \<^verbatim>\<open>with\<close> statement gives and the rows the database holds after it.
\<close>

definition session_scope ::
  "(int \<Rightarrow> nat) \<Rightarrow> store \<Rightarrow> (session \<Rightarrow> (exn + 'a) \<times> session) \<Rightarrow> (exn + 'a) \<times> store" where
  "session_scope clk db body =
     (let session = SessionLocal clk db
      in case body session of
           (Inr v, s1) \<Rightarrow>
             (case commit s1 of
                (Inr u, s2) \<Rightarrow> (Inr v, committed s2)
              | (Inl e, s2) \<Rightarrow> (Inl e, committed (rollback s2)))
         | (Inl e, s1) \<Rightarrow> (Inl e, committed (rollback s1)))"

section \<open>Load\<close>

text \<open>\<^verbatim>\<open>d[k] = v\<close> on a dictionary, which keeps the order of first insertion.\<close>

fun dict_set :: "'k \<Rightarrow> 'v \<Rightarrow> ('k \<times> 'v) list \<Rightarrow> ('k \<times> 'v) list" where
  "dict_set k v [] = [(k, v)]"
| "dict_set k v ((k', v') # d) =
     (if k' = k then (k, v) # d else (k', v') # dict_set k v d)"

text \<open>
  \<^verbatim>\<open>
  def upsert_reference_batch(session, batch):
      """Insert/update unique Type/Ability/Stat rows once per batch to avoid PK conflicts."""
      type_map, ability_map, stat_map = {}, {}, {}
      for tp in batch:
          for type_id, type_name, _slot in tp.types:
              type_map[type_id] = type_name
          for ability_id, ability_name, _hidden, _slot in tp.abilities:
              ability_map[ability_id] = ability_name
          for stat_id, stat_name, _base, _effort in tp.stats:
              stat_map[stat_id] = stat_name
      for tid, name in type_map.items():
          session.merge(Type(id=tid, name=name))
      for aid, name in ability_map.items():
          session.merge(Ability(id=aid, name=name))
      for sid, name in stat_map.items():
          session.merge(Stat(id=sid, name=name))
  \<close>
\<close>

definition ref_maps ::
  "tpokemon list \<Rightarrow> (int \<times> json) list \<times> (int \<times> json) list \<times> (int \<times> json) list" where
  "ref_maps batch =
     foldl (\<lambda>(type_map, ability_map, stat_map) tp.
         (foldl (\<lambda>m (type_id, type_name, slot). dict_set type_id type_name m)
            type_map (tp_types tp),
          foldl (\<lambda>m (ability_id, ability_name, hidden, slot). dict_set ability_id ability_name m)
            ability_map (tp_abilities tp),
          foldl (\<lambda>m (stat_id, stat_name, base, effort). dict_set stat_id stat_name m)
            stat_map (tp_stats tp)))
       ([], [], []) batch"

definition upsert_reference_batch :: "session \<Rightarrow> tpokemon list \<Rightarrow> session" where
  "upsert_reference_batch session batch =
     (case ref_maps batch of (type_map, ability_map, stat_map) \<Rightarrow>
        let s1 = foldl (\<lambda>s (tid, name). merge_type tid name s) session type_map;
            s2 = foldl (\<lambda>s (aid, name). merge_ability aid name s) s1 ability_map
        in foldl (\<lambda>s (sid, name). merge_stat sid name s) s2 stat_map)"

text \<open>
  \<^verbatim>\<open>
  def upsert_pokemon(session, tp):
      session.merge(Pokemon(id=tp.id, name=tp.name, base_experience=tp.base_experience,
                            height_cm=tp.height_cm, weight_kg=tp.weight_kg, bmi=tp.bmi,
                            sprite_url=tp.sprite_url))
      for type_id, _name, slot in tp.types:
          session.merge(PokemonType(pokemon_id=tp.id, type_id=type_id, slot=slot))
      for ability_id, _name, is_hidden, slot in tp.abilities:
          session.merge(PokemonAbility(pokemon_id=tp.id, ability_id=ability_id,
                                       is_hidden=is_hidden, slot=slot))
      for stat_id, _name, base_stat, effort in tp.stats:
          session.merge(PokemonStat(pokemon_id=tp.id, stat_id=stat_id,
                                    base_stat=base_stat, effort=effort))
  \<close>
\<close>

definition Pokemon :: "tpokemon \<Rightarrow> pokemon_row" where
  "Pokemon tp =
     \<lparr> p_name = tp_name tp, p_base_experience = tp_base_experience tp,
       p_height_cm = tp_height_cm tp, p_weight_kg = tp_weight_kg tp, p_bmi = tp_bmi tp,
       p_sprite_url = tp_sprite_url tp, p_loaded_at = None \<rparr>"

definition upsert_pokemon :: "session \<Rightarrow> tpokemon \<Rightarrow> session" where
  "upsert_pokemon session tp =
     (let s1 = merge_pokemon (tp_id tp) (Pokemon tp) session;
          s2 = foldl (\<lambda>s (type_id, name, slot). merge_pokemon_type (tp_id tp, type_id) slot s)
                 s1 (tp_types tp);
          s3 = foldl (\<lambda>s (ability_id, name, is_hidden, slot).
                        merge_pokemon_ability (tp_id tp, ability_id) (is_hidden, slot) s)
                 s2 (tp_abilities tp)
      in foldl (\<lambda>s (stat_id, name, base_stat, effort).
                  merge_pokemon_stat (tp_id tp, stat_id) (base_stat, effort) s)
           s3 (tp_stats tp))"

text \<open>
  \<^verbatim>\<open>
  def load_batch(session, batch):
      upsert_reference_batch(session, batch)
      for tp in batch:
          upsert_pokemon(session, tp)
      return len(batch)
  \<close>
  The session is changed in place; the model returns it beside the count.
\<close>

definition load_batch :: "session \<Rightarrow> tpokemon list \<Rightarrow> session \<times> int" where
  "load_batch session batch =
     (foldl upsert_pokemon (upsert_reference_batch session batch) batch, int (length batch))"

section \<open>The pipeline\<close>

text \<open>
  \<^verbatim>\<open>
  def run_etl(limit=20, offset=0):
      create_schema()  # creates tables if missing; calling again has no effect
      items = asyncio.run(extract_transform(limit=limit, offset=offset))
      with session_scope() as session:
          loaded = load_batch(session, items)
      return (len(items), loaded)
  \<close>
  The tables of a store exist, so \<^verbatim>\<open>create_schema\<close> changes nothing here. \<open>load\<close> is
  the \<^verbatim>\<open>with\<close> statement. The environment of a run is gathered in a record.
\<close>

record env =
  net :: network
  finish :: "nat \<Rightarrow> nat"
  py_str :: "json \<Rightarrow> string"
  now :: "int \<Rightarrow> nat"

definition load :: "(int \<Rightarrow> nat) \<Rightarrow> store \<Rightarrow> tpokemon list \<Rightarrow> (exn + int) \<times> store" where
  "load clk db items =
     session_scope clk db (\<lambda>session.
       case load_batch session items of (s, loaded) \<Rightarrow> (Inr loaded, s))"

definition run_etl ::
  "config \<Rightarrow> env \<Rightarrow> int \<Rightarrow> int \<Rightarrow> store \<Rightarrow> ((exn + int \<times> int) \<times> store) option" where
  "run_etl cfg ev limit offset db =
     (case extract_transform cfg (net ev) (finish ev) (py_str ev) limit offset of
        None \<Rightarrow> None
      | Some (Inl e) \<Rightarrow> Some (Inl e, db)
      | Some (Inr items) \<Rightarrow>
          (case load (now ev) db items of
             (Inl e, db') \<Rightarrow> Some (Inl e, db')
           | (Inr loaded, db') \<Rightarrow> Some (Inr (int (length items), loaded), db')))"

section \<open>Sample data\<close>

text \<open>\<open>lacks obj k\<close>: the dictionary \<open>obj\<close> has no key \<open>k\<close>.\<close>

definition lacks :: "json \<Rightarrow> string \<Rightarrow> bool" where
  "lacks obj k = (case obj of JDict kvs \<Rightarrow> map_of kvs k = None | _ \<Rightarrow> False)"

text \<open>\<^verbatim>\<open>sample_pokemon_payload()\<close> of \<^verbatim>\<open>test_transform.py\<close>.\<close>

definition sample_pokemon_payload :: json where
  "sample_pokemon_payload = JDict [
     (''id'', JInt 1),
     (''name'', JStr ''bulbasaur''),
     (''height'', JInt 7),
     (''weight'', JInt 69),
     (''base_experience'', JInt 64),
     (''types'', JList [
        JDict [(''slot'', JInt 1),
               (''type'', JDict [(''name'', JStr ''grass''),
                                 (''url'', JStr ''https://pokeapi.co/api/v2/type/12/'')])],
        JDict [(''slot'', JInt 2),
               (''type'', JDict [(''name'', JStr ''poison''),
                                 (''url'', JStr ''https://pokeapi.co/api/v2/type/4/'')])]]),
     (''abilities'', JList [
        JDict [(''ability'', JDict [(''name'', JStr ''overgrow''),
                                    (''url'', JStr ''https://pokeapi.co/api/v2/ability/65/'')]),
               (''is_hidden'', JBool False), (''slot'', JInt 1)],
        JDict [(''ability'', JDict [(''name'', JStr ''chlorophyll''),
                                    (''url'', JStr ''https://pokeapi.co/api/v2/ability/34/'')]),
               (''is_hidden'', JBool True), (''slot'', JInt 3)]]),
     (''stats'', JList [
        JDict [(''base_stat'', JInt 45), (''effort'', JInt 0),
               (''stat'', JDict [(''name'', JStr ''hp''),
                                 (''url'', JStr ''https://pokeapi.co/api/v2/stat/1/'')])],
        JDict [(''base_stat'', JInt 49), (''effort'', JInt 0),
               (''stat'', JDict [(''name'', JStr ''attack''),
                                 (''url'', JStr ''https://pokeapi.co/api/v2/stat/2/'')])]]),
     (''sprites'', JDict [(''front_default'', JStr ''https://example/img.png'')])]"

text \<open>The record the sample transforms to (\<open>transform_sample\<close> below).\<close>

definition sample_record :: tpokemon where
  "sample_record =
     \<lparr> tp_id = 1, tp_name = ''bulbasaur'', tp_base_experience = JInt 64,
       tp_height_cm = 70,
       tp_weight_kg = Finite (3884354678607053 / 562949953421312),
       tp_bmi = Some (Finite (1981813611534211 / 140737488355328)),
       tp_sprite_url = JStr ''https://example/img.png'',
       tp_types = [(12, JStr ''grass'', 1), (4, JStr ''poison'', 2)],
       tp_abilities = [(65, JStr ''overgrow'', False, 1), (34, JStr ''chlorophyll'', True, 3)],
       tp_stats = [(1, JStr ''hp'', 45, 0), (2, JStr ''attack'', 49, 0)] \<rparr>"

text \<open>
  An environment in which the listing has the one item \<^verbatim>\<open>bulbasaur\<close> and every detail
  fetch gets the sample payload, each at the first attempt.
\<close>

definition sample_env :: env where
  "sample_env =
     \<lparr> net = (\<lambda>c url k.
          if c = 0
          then Inr (JDict [(''results'', JList [JDict [(''name'', JStr ''bulbasaur'')]])])
          else Inr sample_pokemon_payload),
       finish = (\<lambda>i. i), py_str = (\<lambda>v. []), now = (\<lambda>k. 0) \<rparr>"

text \<open>The store after the sample record is loaded into the empty store (\<open>load_sample\<close> below).\<close>

definition sample_store :: store where
  "sample_store =
   \<lparr>pokemon =
      [(1, \<lparr>p_name = ''bulbasaur'', p_base_experience = JInt 64,
              p_height_cm = 70,
              p_weight_kg = Finite (3884354678607053 / 562949953421312),
              p_bmi = Some (Finite (1981813611534211 / 140737488355328)),
              p_sprite_url = JStr ''https://example/img.png'',
              p_loaded_at = Some 0\<rparr>)],
      type_tbl = [(12, JStr ''grass''), (4, JStr ''poison'')],
      ability = [(65, JStr ''overgrow''), (34, JStr ''chlorophyll'')],
      stat = [(1, JStr ''hp''), (2, JStr ''attack'')],
      pokemon_type = [((1, 12), 1), ((1, 4), 2)],
      pokemon_ability = [((1, 65), False, 1), ((1, 34), True, 3)],
      pokemon_stat = [((1, 1), 45, 0), ((1, 2), 49, 0)]\<rparr>"

section \<open>Notions for the proofs about the loader\<close>

text \<open>
  A sequence of merges on one table, and its effect on the rows of the database alone.
\<close>

definition merge_all ::
  "('r \<Rightarrow> 'r \<Rightarrow> 'r) \<Rightarrow> ('k \<times> 'r) list \<Rightarrow> ('k, 'r) table \<times> ('k, 'r) table
     \<Rightarrow> ('k, 'r) table \<times> ('k, 'r) table" where
  "merge_all copy ws pp = foldl (\<lambda>pp (k, obj). merge copy k obj pp) pp ws"

definition overwrite_all ::
  "('r \<Rightarrow> 'r \<Rightarrow> 'r) \<Rightarrow> ('k \<times> 'r) list \<Rightarrow> ('k, 'r) table \<Rightarrow> ('k, 'r) table" where
  "overwrite_all copy ws t = foldl (\<lambda>t (k, obj). overwrite (\<lambda>old. copy old obj) k t) t ws"

text \<open>
  \<open>tbl f s\<close> is what the session \<open>s\<close> holds of the table \<open>f\<close>. An operation on sessions
  \<open>acts_on\<close> a table when all it does to it is a fixed sequence of merges, and \<open>keeps\<close>
  what is committed when it does not touch it.
\<close>

definition tbl :: "(store \<Rightarrow> ('k, 'r) table) \<Rightarrow> session \<Rightarrow> ('k, 'r) table \<times> ('k, 'r) table" where
  "tbl f s = (f (persistent s), f (pending s))"

definition acts_on ::
  "(store \<Rightarrow> ('k, 'r) table) \<Rightarrow> ('r \<Rightarrow> 'r \<Rightarrow> 'r) \<Rightarrow> (session \<Rightarrow> session) \<Rightarrow> bool" where
  "acts_on f copy op \<longleftrightarrow> (\<exists>ws. \<forall>s. tbl f (op s) = merge_all copy ws (tbl f s))"

definition keeps :: "(session \<Rightarrow> session) \<Rightarrow> bool" where
  "keeps op \<longleftrightarrow> (\<forall>s. committed (op s) = committed s \<and> clock (op s) = clock s)"

section \<open>Properties of the locator id\<close>

lemma split_on_not_Nil: "split_on c s \<noteq> []"
  by (induction s) (auto simp: Let_def)

lemma split_on_append:
  "split_on c (u @ c # v) = split_on c u @ split_on c v"
  by (induction u) (auto simp: Let_def split_on_not_Nil)

lemma split_on_replicate: "split_on c (replicate k c) = replicate (Suc k) []"
  by (induction k) (auto simp: Let_def)

lemma last_split_on_snoc:
  "x \<noteq> c \<Longrightarrow> last (split_on c (u @ [x])) \<noteq> []"
proof (induction u)
  case Nil
  then show ?case by (simp add: Let_def)
next
  case (Cons a u)
  have ne: "split_on c (u @ [x]) \<noteq> []" by (rule split_on_not_Nil)
  then obtain s ss where eq: "split_on c (u @ [x]) = s # ss"
    by (cases "split_on c (u @ [x])") auto
  with Cons show ?case
    by (cases ss) (auto simp: Let_def)
qed

lemma rstrip_decomp:
  "\<exists>k. s = rstrip c s @ replicate k c \<and> (rstrip c s = [] \<or> last (rstrip c s) \<noteq> c)"
proof -
  let ?P = "\<lambda>x. x = c"
  have tw: "takeWhile ?P xs = replicate (length (takeWhile ?P xs)) c" for xs
    by (induction xs) auto
  have "rev s = takeWhile ?P (rev s) @ dropWhile ?P (rev s)" by simp
  then have "s = rev (dropWhile ?P (rev s)) @ rev (takeWhile ?P (rev s))"
    by (metis rev_append rev_rev_ident)
  moreover have "rev (takeWhile ?P (rev s)) = replicate (length (takeWhile ?P (rev s))) c"
    using tw[of "rev s"] by (metis rev_replicate)
  ultimately have a: "s = rstrip c s @ replicate (length (takeWhile ?P (rev s))) c"
    by (simp add: rstrip_def)
  have b: "rstrip c s = [] \<or> last (rstrip c s) \<noteq> c"
    unfolding rstrip_def using hd_dropWhile[of ?P "rev s"]
    by (auto simp: last_rev)
  from a b show ?thesis by blast
qed

lemma split_on_trailing:
  "split_on c (u @ replicate k c) = split_on c u @ replicate k []"
proof (cases k)
  case 0
  then show ?thesis by simp
next
  case (Suc j)
  then show ?thesis
    by (simp add: split_on_append split_on_replicate replicate_append_same)
qed

lemma drop_trailing_empty_replicate:
  "drop_trailing_empty (xs @ replicate k []) = drop_trailing_empty xs"
proof -
  have "dropWhile (\<lambda>s. s = []) (replicate k [] @ ys) = dropWhile (\<lambda>s. s = []) ys"
    for ys :: "string list"
    by (induction k) auto
  then show ?thesis by (simp add: drop_trailing_empty_def)
qed

lemma drop_trailing_empty_id:
  "xs \<noteq> [] \<Longrightarrow> last xs \<noteq> [] \<Longrightarrow> drop_trailing_empty xs = xs"
  unfolding drop_trailing_empty_def
  by (cases "rev xs") (auto simp: last_rev dest: arg_cong[where f=rev])

lemma py_int_str_Nil: "py_int_str [] = Inl ValueError"
  by (simp add: py_int_str_def strip_def parse_nat_def)

lemma id_from_url_refines:
  "to_option (id_from_url url) = spec_locator_id_all url"
proof -
  let ?c = "CHR ''/''"
  let ?u = "rstrip ?c url"
  obtain k where url: "url = ?u @ replicate k ?c"
    and u: "?u = [] \<or> last ?u \<noteq> ?c"
    using rstrip_decomp[of url ?c] by blast
  have segs: "drop_trailing_empty (split_on ?c url) = drop_trailing_empty (split_on ?c ?u)"
    by (subst url) (simp only: split_on_trailing drop_trailing_empty_replicate)
  show ?thesis
  proof (cases "?u = []")
    case True
    then show ?thesis
      unfolding spec_locator_id_all_def segs id_from_url_def
      by (simp add: py_last_def py_int_str_Nil to_option_def drop_trailing_empty_def)
  next
    case False
    with u have "last ?u \<noteq> ?c" by simp
    with False have "last (split_on ?c ?u) \<noteq> []"
      by (metis append_butlast_last_id last_split_on_snoc)
    then have "drop_trailing_empty (split_on ?c ?u) = split_on ?c ?u"
      by (simp add: drop_trailing_empty_id split_on_not_Nil)
    then show ?thesis
      unfolding spec_locator_id_all_def segs id_from_url_def
      by (simp add: py_last_def split_on_not_Nil)
  qed
qed

lemmas locator_eval =
  id_from_url_def rstrip_def py_last_def py_int_str_def strip_def is_space_def
  parse_nat_def is_digit_def digit_val_def int_max_str_digits_def Let_def

text \<open>
  Claim C4, as stated, at a locator with two trailing slashes: \<^verbatim>\<open>rstrip("/")\<close> removes
  both and the id is 12, while splitting first and dropping the one empty trailing
  segment leaves an empty last segment, which is no integer.
\<close>

theorem C4_locator_id_counterexample:
  "id_from_url ''https://pokeapi.co/api/v2/type/12//'' = Inr 12 \<and>
   spec_locator_id ''https://pokeapi.co/api/v2/type/12//'' = None"
  by (simp add: locator_eval spec_locator_id_def to_option_def)

text \<open>
  Claim C4, amended: for every locator, the extracted id is the integer obtained by
  splitting the locator on \<open>/\<close>, dropping every empty trailing segment and parsing the last
  remaining segment as an integer, and the extraction fails exactly when that fails; a
  locator ending \<^verbatim>\<open>.../type/12/\<close> yields 12.
\<close>

theorem C4_locator_id:
  "to_option (id_from_url url) = spec_locator_id_all url \<and>
   id_from_url ''https://pokeapi.co/api/v2/type/12/'' = Inr 12"
proof
  show "to_option (id_from_url url) = spec_locator_id_all url"
    by (rule id_from_url_refines)
  show "id_from_url ''https://pokeapi.co/api/v2/type/12/'' = Inr 12"
    by (simp add: locator_eval)
qed

section \<open>Properties of the fetcher\<close>

lemma fetch_loop_attempts: "attempts (fetch_loop get n k sl lx) \<le> k + n"
proof (induction n arbitrary: k sl lx)
  case 0
  then show ?case by simp
next
  case (Suc n)
  show ?case
  proof (cases "get k")
    case (Inr b)
    then show ?thesis by simp
  next
    case (Inl e)
    with Suc[of "Suc k" "sl @ [500]" "Some e"] show ?thesis by simp
  qed
qed



lemma fetch_loop_Inl:
  "result (fetch_loop get n k sl lx) = Inl e \<Longrightarrow>
     attempts (fetch_loop get n k sl lx) = k + n \<and>
     (\<forall>j. k \<le> j \<and> j < k + n \<longrightarrow> isl (get j)) \<and>
     (if n = 0 then e = (case lx of None \<Rightarrow> AssertionError | Some x \<Rightarrow> x)
      else get (k + n - 1) = Inl e)"
proof (induction n arbitrary: k sl lx)
  case 0
  then show ?case by (auto split: option.splits)
next
  case (Suc n)
  show ?case
  proof (cases "get k")
    case (Inr b)
    with Suc.prems show ?thesis by simp
  next
    case (Inl x)
    let ?r = "fetch_loop get n (Suc k) (sl @ [500]) (Some x)"
    from Inl Suc.prems have r: "result ?r = Inl e" by simp
    from Suc.IH[OF r] have
      a: "attempts ?r = Suc k + n" and
      f: "\<forall>j. Suc k \<le> j \<and> j < Suc k + n \<longrightarrow> isl (get j)" and
      l: "if n = 0 then e = x else get (Suc k + n - 1) = Inl e"
      by (auto split: if_splits)
    have 1: "attempts (fetch_loop get (Suc n) k sl lx) = k + Suc n"
      using Inl a by simp
    have 2: "\<forall>j. k \<le> j \<and> j < k + Suc n \<longrightarrow> isl (get j)"
    proof (intro allI impI)
      fix j assume "k \<le> j \<and> j < k + Suc n"
      then consider "j = k" | "Suc k \<le> j \<and> j < Suc k + n" by linarith
      then show "isl (get j)" using Inl f by cases auto
    qed
    have 3: "get (k + Suc n - 1) = Inl e"
    proof (cases "n = 0")
      case True
      with l Inl show ?thesis by simp
    next
      case False
      with l show ?thesis by simp
    qed
    from 1 2 3 show ?thesis by simp
  qed
qed

lemma fetch_loop_Inr:
  "result (fetch_loop get n k sl lx) = Inr b \<Longrightarrow>
     (\<exists>j. k \<le> j \<and> j < k + n \<and> get j = Inr b \<and>
          attempts (fetch_loop get n k sl lx) = Suc j \<and>
          (\<forall>i. k \<le> i \<and> i < j \<longrightarrow> isl (get i)))"
proof (induction n arbitrary: k sl lx)
  case 0
  then show ?case by (auto split: option.splits)
next
  case (Suc n)
  show ?case
  proof (cases "get k")
    case (Inr c)
    with Suc.prems show ?thesis by (intro exI[of _ k]) auto
  next
    case (Inl x)
    with Suc.prems have r: "result (fetch_loop get n (Suc k) (sl @ [500]) (Some x)) = Inr b"
      by simp
    from Suc.IH[OF r] obtain j where j: "Suc k \<le> j" "j < Suc k + n" "get j = Inr b"
      "attempts (fetch_loop get n (Suc k) (sl @ [500]) (Some x)) = Suc j"
      "\<forall>i. Suc k \<le> i \<and> i < j \<longrightarrow> isl (get i)" by blast
    have "\<forall>i. k \<le> i \<and> i < j \<longrightarrow> isl (get i)"
    proof (intro allI impI)
      fix i assume "k \<le> i \<and> i < j"
      then consider "i = k" | "Suc k \<le> i \<and> i < j" by linarith
      then show "isl (get i)" using Inl j(5) by cases auto
    qed
    with j Inl show ?thesis by (intro exI[of _ j]) auto
  qed
qed


text \<open>
  Claim C10: \<^verbatim>\<open>_fetch_json\<close> makes at most \<^verbatim>\<open>MAX_RETRIES\<close> attempts (a negative limit
  behaves as 0). With \<^verbatim>\<open>MAX_RETRIES = 0\<close> it makes no attempt and sleeps never, and the
  terminal assertion fails: the result is \<^verbatim>\<open>AssertionError\<close>, neither a body nor an
  exception of the network. With \<^verbatim>\<open>MAX_RETRIES >= 1\<close> the assertion holds: a failure comes
  after exactly \<^verbatim>\<open>MAX_RETRIES\<close> attempts and raises the exception of the last one.
\<close>

theorem C10_fetch_json_attempts:
  "attempts (fetch_json cfg get) \<le> nat (MAX_RETRIES cfg) \<and>
   (MAX_RETRIES cfg = 0 \<longrightarrow>
      fetch_json cfg get = \<lparr> result = Inl AssertionError, attempts = 0, sleeps = [] \<rparr>) \<and>
   (1 \<le> MAX_RETRIES cfg \<longrightarrow> result (fetch_json cfg get) = Inl e \<longrightarrow>
      attempts (fetch_json cfg get) = nat (MAX_RETRIES cfg) \<and>
      get (nat (MAX_RETRIES cfg) - 1) = Inl e)"
proof (intro conjI impI)
  show "attempts (fetch_json cfg get) \<le> nat (MAX_RETRIES cfg)"
    using fetch_loop_attempts[of get "nat (MAX_RETRIES cfg)" 0 "[]" None]
    by (simp add: fetch_json_def)
next
  assume "MAX_RETRIES cfg = 0"
  then show "fetch_json cfg get = \<lparr> result = Inl AssertionError, attempts = 0, sleeps = [] \<rparr>"
    by (simp add: fetch_json_def)
next
  assume m: "1 \<le> MAX_RETRIES cfg" and r: "result (fetch_json cfg get) = Inl e"
  from r have "result (fetch_loop get (nat (MAX_RETRIES cfg)) 0 [] None) = Inl e"
    by (simp add: fetch_json_def)
  from fetch_loop_Inl[OF this] m
  show "attempts (fetch_json cfg get) = nat (MAX_RETRIES cfg)"
    and "get (nat (MAX_RETRIES cfg) - 1) = Inl e"
    by (simp_all add: fetch_json_def)
qed

theorem C10_fetch_json_attempts_witness:
  "fetch_json (default_config\<lparr> MAX_RETRIES := 0 \<rparr>) (\<lambda>k. Inr JNull)
     = \<lparr> result = Inl AssertionError, attempts = 0, sleeps = [] \<rparr> \<and>
   (1 \<le> MAX_RETRIES default_config \<and>
    result (fetch_json default_config (\<lambda>k. Inl (NetworkError k))) = Inl (NetworkError 2) \<and>
    attempts (fetch_json default_config (\<lambda>k. Inl (NetworkError k))) = 3)"
proof -
  have r: "result (fetch_json default_config (\<lambda>k. Inl (NetworkError k))) = Inl (NetworkError 2)"
    by (simp add: fetch_json_def default_config_def eval_nat_numeral)
  have m: "1 \<le> MAX_RETRIES default_config" by (simp add: default_config_def)
  from C10_fetch_json_attempts[of "default_config\<lparr> MAX_RETRIES := 0 \<rparr>" "\<lambda>k. Inr JNull"]
    C10_fetch_json_attempts[of default_config "\<lambda>k. Inl (NetworkError k)" "NetworkError 2"] r m
  show ?thesis by (simp add: default_config_def)
qed

lemma gather_Inr:
  "gather fin rs = Inr ys \<Longrightarrow> (\<forall>i < length rs. \<not> isl (rs ! i)) \<and> ys = map projr rs"
  unfolding gather_def
  by (auto split: list.splits simp: filter_empty_conv)

lemma gather_Inl:
  "gather fin rs = Inl e \<Longrightarrow> \<exists>j < length rs. rs ! j = Inl e"
proof -
  assume g: "gather fin rs = Inl e"
  let ?bad = "filter (\<lambda>i. isl (rs ! i)) [0..<length rs]"
  from g obtain i js where b: "?bad = i # js" and e: "e = projl (rs ! arg_min_list fin (i # js))"
    unfolding gather_def by (auto split: list.splits)
  have "arg_min_list fin (i # js) \<in> set ?bad"
    using arg_min_list_in[of "i # js" fin] b by simp
  then have "arg_min_list fin (i # js) < length rs" and "isl (rs ! arg_min_list fin (i # js))"
    by auto
  with e show ?thesis by (intro exI[of _ "arg_min_list fin (i # js)"]) (auto simp: isl_def)
qed


lemma length_fetch_all: "length (fetch_all cfg nt targets) = length targets"
  by (simp add: fetch_all_def)





lemma map_exn_length: "map_exn f xs = Inr ys \<Longrightarrow> length ys = length xs"
  by (induction xs arbitrary: ys) (auto simp: bind_exn_def split: sum.splits)







section \<open>Properties of the transform\<close>

lemma bind_exn_Inr:
  "bind_exn m f = Inr y \<longleftrightarrow> (\<exists>x. m = Inr x \<and> f x = Inr y)"
  by (cases m) (simp_all add: bind_exn_def)

lemma lacks_getitem: "lacks obj k \<Longrightarrow> py_getitem obj k = Inl (KeyError k)"
  by (cases obj) (simp_all add: lacks_def py_getitem_def)

lemma lacks_not_Inr [simp]: "lacks obj k \<Longrightarrow> py_getitem obj k \<noteq> Inr v"
  by (simp add: lacks_getitem)

lemma transform_one_minimal:
  "to_kg w = Inr wk \<Longrightarrow> bmi (to_cm h) wk = Inr b \<Longrightarrow>
   transform_one py (JDict [(''id'', JInt i), (''name'', JStr n), (''height'', JInt h),
                            (''weight'', JInt w)]) =
   Inr \<lparr> tp_id = i, tp_name = n, tp_base_experience = JNull, tp_height_cm = h * 10,
         tp_weight_kg = wk, tp_bmi = b, tp_sprite_url = JNull,
         tp_types = [], tp_abilities = [], tp_stats = [] \<rparr>"
  by (simp add: transform_one_def bind_exn_def py_getitem_def py_get_def py_int_def py_iter_def
      str_of_def to_cm_def)

lemma transform_one_Inr:
  assumes "transform_one py payload = Inr r"
  shows "\<exists>id_v name_v height_v dm weight_v hg.
           py_getitem payload ''id'' = Inr id_v \<and> py_int id_v = Inr (tp_id r) \<and>
           py_getitem payload ''name'' = Inr name_v \<and> tp_name r = str_of py name_v \<and>
           py_getitem payload ''height'' = Inr height_v \<and> py_int height_v = Inr dm \<and>
           py_getitem payload ''weight'' = Inr weight_v \<and> py_int weight_v = Inr hg \<and>
           tp_height_cm r = to_cm dm \<and>
           to_kg hg = Inr (tp_weight_kg r) \<and>
           bmi (to_cm dm) (tp_weight_kg r) = Inr (tp_bmi r)"
  using assms unfolding transform_one_def bind_exn_Inr
  by auto


lemma to_kg_69: "to_kg 69 = Inr (Finite (3884354678607053 / 562949953421312))"
  by code_simp

lemma bmi_70:
  "bmi 70 (Finite (3884354678607053 / 562949953421312)) =
     Inr (Some (Finite (1981813611534211 / 140737488355328)))"
  by code_simp

lemmas json_eval = bind_exn_def py_getitem_def py_get_def py_int_def py_iter_def py_bool_def
  id_from_url_json_def str_of_def to_cm_def

lemma transform_sample: "transform_one py sample_pokemon_payload = Inr sample_record"
  by (simp add: transform_one_def sample_pokemon_payload_def sample_record_def json_eval
      transform_type_def transform_ability_def transform_stat_def locator_eval to_kg_69 bmi_70)

lemma map_exn_first_failure:
  "map_exn f pre = Inr ys \<Longrightarrow> f t = Inl e \<Longrightarrow> map_exn f (pre @ t # post) = Inl e"
  by (induction pre arbitrary: ys) (auto simp: bind_exn_def split: sum.splits)

lemma transform_type_KeyError:
  "(lacks t ''type'' \<longrightarrow> transform_type t = Inl (KeyError ''type'')) \<and>
   (py_getitem t ''type'' = Inr ref \<longrightarrow>
      (lacks ref ''name'' \<longrightarrow> transform_type t = Inl (KeyError ''name'')) \<and>
      (py_getitem ref ''name'' = Inr nm \<longrightarrow>
         (lacks ref ''url'' \<longrightarrow> transform_type t = Inl (KeyError ''url'')) \<and>
         (py_getitem ref ''url'' = Inr u \<and> id_from_url_json u = Inr n \<longrightarrow>
            (lacks t ''slot'' \<longrightarrow> transform_type t = Inl (KeyError ''slot'')))))"
  by (simp add: transform_type_def bind_exn_def lacks_getitem)

lemma transform_ability_KeyError:
  "(lacks a ''ability'' \<longrightarrow> transform_ability a = Inl (KeyError ''ability'')) \<and>
   (py_getitem a ''ability'' = Inr ref \<longrightarrow>
      (lacks ref ''name'' \<longrightarrow> transform_ability a = Inl (KeyError ''name'')) \<and>
      (py_getitem ref ''name'' = Inr nm \<longrightarrow>
         (lacks ref ''url'' \<longrightarrow> transform_ability a = Inl (KeyError ''url'')) \<and>
         (py_getitem ref ''url'' = Inr u \<and> id_from_url_json u = Inr n \<longrightarrow>
            (lacks a ''is_hidden'' \<longrightarrow> transform_ability a = Inl (KeyError ''is_hidden'')) \<and>
            (py_getitem a ''is_hidden'' = Inr h \<longrightarrow>
               (lacks a ''slot'' \<longrightarrow> transform_ability a = Inl (KeyError ''slot''))))))"
  by (simp add: transform_ability_def bind_exn_def lacks_getitem)

lemma transform_stat_KeyError:
  "(lacks s ''stat'' \<longrightarrow> transform_stat s = Inl (KeyError ''stat'')) \<and>
   (py_getitem s ''stat'' = Inr ref \<longrightarrow>
      (lacks ref ''name'' \<longrightarrow> transform_stat s = Inl (KeyError ''name'')) \<and>
      (py_getitem ref ''name'' = Inr nm \<longrightarrow>
         (lacks ref ''url'' \<longrightarrow> transform_stat s = Inl (KeyError ''url'')) \<and>
         (py_getitem ref ''url'' = Inr u \<and> id_from_url_json u = Inr n \<longrightarrow>
            (lacks s ''base_stat'' \<longrightarrow> transform_stat s = Inl (KeyError ''base_stat'')) \<and>
            (py_getitem s ''base_stat'' = Inr bs \<and> py_int bs = Inr bn \<longrightarrow>
               (lacks s ''effort'' \<longrightarrow> transform_stat s = Inl (KeyError ''effort''))))))"
  by (simp add: transform_stat_def bind_exn_def lacks_getitem)

lemma py_get_total:
  "py_getitem payload k = Inr v \<Longrightarrow> \<exists>w. py_get payload k' d = Inr w"
  by (cases payload) (simp_all add: py_getitem_def py_get_def)

lemma transform_one_scalars:
  "(lacks payload ''id'' \<longrightarrow> transform_one py payload = Inl (KeyError ''id'')) \<and>
   (py_getitem payload ''id'' = Inr id_v \<and> py_int id_v = Inr pid \<longrightarrow>
      (lacks payload ''name'' \<longrightarrow> transform_one py payload = Inl (KeyError ''name'')) \<and>
      (py_getitem payload ''name'' = Inr name_v \<longrightarrow>
         (lacks payload ''height'' \<longrightarrow> transform_one py payload = Inl (KeyError ''height'')) \<and>
         (py_getitem payload ''height'' = Inr height_v \<and> py_int height_v = Inr dm \<longrightarrow>
            (lacks payload ''weight'' \<longrightarrow> transform_one py payload = Inl (KeyError ''weight'')))))"
proof (intro conjI impI; (elim conjE)?)
  assume "lacks payload ''id''"
  then show "transform_one py payload = Inl (KeyError ''id'')"
    by (simp add: transform_one_def bind_exn_def lacks_getitem)
next
  assume "py_getitem payload ''id'' = Inr id_v" "py_int id_v = Inr pid" "lacks payload ''name''"
  then show "transform_one py payload = Inl (KeyError ''name'')"
    by (simp add: transform_one_def bind_exn_def lacks_getitem)
next
  assume a: "py_getitem payload ''id'' = Inr id_v" "py_int id_v = Inr pid"
    "py_getitem payload ''name'' = Inr name_v" "lacks payload ''height''"
  from py_get_total[OF a(1)] obtain bx where "py_get payload ''base_experience'' JNull = Inr bx"
    by blast
  with a show "transform_one py payload = Inl (KeyError ''height'')"
    by (simp add: transform_one_def bind_exn_def lacks_getitem)
next
  assume a: "py_getitem payload ''id'' = Inr id_v" "py_int id_v = Inr pid"
    "py_getitem payload ''name'' = Inr name_v"
    "py_getitem payload ''height'' = Inr height_v" "py_int height_v = Inr dm"
    "lacks payload ''weight''"
  from py_get_total[OF a(1)] obtain bx where "py_get payload ''base_experience'' JNull = Inr bx"
    by blast
  with a show "transform_one py payload = Inl (KeyError ''weight'')"
    by (simp add: transform_one_def bind_exn_def lacks_getitem)
qed

text \<open>The part of \<^verbatim>\<open>transform_one\<close> before the three loops.\<close>

lemma transform_one_loops:
  assumes "py_getitem payload ''id'' = Inr id_v" "py_int id_v = Inr pid"
    "py_getitem payload ''name'' = Inr name_v"
    "py_getitem payload ''height'' = Inr height_v" "py_int height_v = Inr dm"
    "py_getitem payload ''weight'' = Inr weight_v" "py_int weight_v = Inr hg"
    "to_kg hg = Inr wk" "bmi (to_cm dm) wk = Inr b"
    "py_get payload ''sprites'' (JDict []) = Inr sp" "py_get sp ''front_default'' JNull = Inr sprite"
  shows "transform_one py payload =
     bind_exn (py_get payload ''types'' (JList [])) (\<lambda>types_v.
     bind_exn (py_iter types_v) (\<lambda>ts.
     bind_exn (map_exn transform_type ts) (\<lambda>types.
     bind_exn (py_get payload ''abilities'' (JList [])) (\<lambda>abilities_v.
     bind_exn (py_iter abilities_v) (\<lambda>as.
     bind_exn (map_exn transform_ability as) (\<lambda>abilities.
     bind_exn (py_get payload ''stats'' (JList [])) (\<lambda>stats_v.
     bind_exn (py_iter stats_v) (\<lambda>ss.
     bind_exn (map_exn transform_stat ss) (\<lambda>stats.
     Inr \<lparr> tp_id = pid,
           tp_name = str_of py name_v,
           tp_base_experience =
             (case payload of JDict kvs \<Rightarrow>
                (case map_of kvs ''base_experience'' of None \<Rightarrow> JNull | Some v \<Rightarrow> v)),
           tp_height_cm = to_cm dm,
           tp_weight_kg = wk,
           tp_bmi = b,
           tp_sprite_url = sprite,
           tp_types = types,
           tp_abilities = abilities,
           tp_stats = stats \<rparr>)))))))))"
proof -
  from assms(1) obtain kvs where p: "payload = JDict kvs"
    by (cases payload) (simp_all add: py_getitem_def)
  have "py_get payload ''base_experience'' JNull =
          Inr (case map_of kvs ''base_experience'' of None \<Rightarrow> JNull | Some v \<Rightarrow> v)"
    by (simp add: p py_get_def)
  with assms show ?thesis
    by (simp add: transform_one_def bind_exn_def p)
qed

lemma transform_one_defaults:
  assumes "(k, d) \<in> set [(''base_experience'', JNull), (''sprites'', JDict []),
                          (''types'', JList []), (''abilities'', JList []), (''stats'', JList [])]"
    and "lacks (JDict kvs) k"
  shows "transform_one py (JDict kvs) = transform_one py (JDict (kvs @ [(k, d)]))"
proof -
  have n: "map_of kvs k = None" using assms(2) by (simp add: lacks_def)
  have g: "\<And>k'. k' \<noteq> k \<Longrightarrow> py_getitem (JDict (kvs @ [(k, d)])) k' = py_getitem (JDict kvs) k'"
    by (simp add: py_getitem_def map_of_append map_add_def split: option.splits)
  have h: "\<And>k' d'. k' \<noteq> k \<Longrightarrow> py_get (JDict (kvs @ [(k, d)])) k' d' = py_get (JDict kvs) k' d'"
    by (simp add: py_get_def map_of_append map_add_def split: option.splits)
  have i: "py_get (JDict (kvs @ [(k, d)])) k d = py_get (JDict kvs) k d"
    using n by (simp add: py_get_def map_of_append map_add_def)
  from assms(1) consider "k = ''base_experience''" "d = JNull" | "k = ''sprites''" "d = JDict []"
    | "k = ''types''" "d = JList []" | "k = ''abilities''" "d = JList []"
    | "k = ''stats''" "d = JList []" by auto
  then show ?thesis
  proof cases
    case 1 with g h i show ?thesis unfolding transform_one_def by simp
  next
    case 2 with g h i show ?thesis unfolding transform_one_def by simp
  next
    case 3 with g h i show ?thesis unfolding transform_one_def by simp
  next
    case 4 with g h i show ?thesis unfolding transform_one_def by simp
  next
    case 5 with g h i show ?thesis unfolding transform_one_def by simp
  qed
qed

text \<open>
  Claim C8, as stated, at a payload that has the four scalar fields and none of
  \<^verbatim>\<open>types\<close>, \<^verbatim>\<open>abilities\<close>, \<^verbatim>\<open>stats\<close>, \<^verbatim>\<open>sprites\<close>, \<^verbatim>\<open>base_experience\<close>: the transform
  does not fail, it returns a record with empty lists.
\<close>

theorem C8_missing_field_counterexample:
  "lacks (JDict [(''id'', JInt 1), (''name'', JStr ''bulbasaur''), (''height'', JInt 7),
                 (''weight'', JInt 69)]) ''types'' \<and>
   transform_one (\<lambda>v. [])
     (JDict [(''id'', JInt 1), (''name'', JStr ''bulbasaur''), (''height'', JInt 7),
             (''weight'', JInt 69)]) =
   Inr \<lparr> tp_id = 1, tp_name = ''bulbasaur'', tp_base_experience = JNull, tp_height_cm = 70,
         tp_weight_kg = Finite (3884354678607053 / 562949953421312),
         tp_bmi = Some (Finite (1981813611534211 / 140737488355328)),
         tp_sprite_url = JNull, tp_types = [], tp_abilities = [], tp_stats = [] \<rparr>"
proof -
  have "bmi (to_cm 7) (Finite (3884354678607053 / 562949953421312)) =
          Inr (Some (Finite (1981813611534211 / 140737488355328)))"
    by (simp add: to_cm_def bmi_70)
  from transform_one_minimal[OF to_kg_69 this] show ?thesis
    by (simp add: lacks_def)
qed

text \<open>
  Claim C8, amended. The transform reads the payload in the order of the source, and the
  first read that fails ends it with that exception: no record is produced, and in
  \<^verbatim>\<open>extract_transform\<close> no list of records, so that \<^verbatim>\<open>run_etl\<close> raises the same exception
  and the store is as it was; the transform is outside the retry loop of the fetches and
  is not repeated.
  \<^item> A payload that lacks \<^verbatim>\<open>id\<close> fails with \<^verbatim>\<open>KeyError('id')\<close>; one that lacks \<^verbatim>\<open>name\<close>,
    \<^verbatim>\<open>height\<close> or \<^verbatim>\<open>weight\<close> fails with the \<^verbatim>\<open>KeyError\<close> of that key when the fields
    before it are read and converted by \<^verbatim>\<open>int\<close> without an exception.
  \<^item> An entry of \<^verbatim>\<open>types\<close>, \<^verbatim>\<open>abilities\<close> or \<^verbatim>\<open>stats\<close> that lacks its reference
    (\<^verbatim>\<open>type\<close>, \<^verbatim>\<open>ability\<close>, \<^verbatim>\<open>stat\<close>), the \<^verbatim>\<open>name\<close> or \<^verbatim>\<open>url\<close> of the reference, or
    \<^verbatim>\<open>slot\<close>, \<^verbatim>\<open>is_hidden\<close>, \<^verbatim>\<open>base_stat\<close>, \<^verbatim>\<open>effort\<close> fails with the \<^verbatim>\<open>KeyError\<close> of that
    key when the reads of the entry before it succeed.
  \<^item> When the scalar fields and the sprite are read, the first entry of the three loops
    that fails gives the exception of \<^verbatim>\<open>transform_one\<close>, and the first payload that fails
    gives the exception of the comprehension over the payloads.
  \<^item> A payload that lacks \<^verbatim>\<open>base_experience\<close>, \<^verbatim>\<open>sprites\<close>, \<^verbatim>\<open>types\<close>, \<^verbatim>\<open>abilities\<close> or
    \<^verbatim>\<open>stats\<close> is transformed as if the key were there with the value \<^verbatim>\<open>None\<close>, \<^verbatim>\<open>{}\<close>
    or \<^verbatim>\<open>[]\<close>: lacking them is no failure. With the four scalar fields alone the
    record has no sprite, no base experience and three empty lists.
\<close>

theorem C8_missing_field:
  "((lacks payload ''id'' \<longrightarrow> transform_one py payload = Inl (KeyError ''id'')) \<and>
   (py_getitem payload ''id'' = Inr id_v \<and> py_int id_v = Inr pid \<longrightarrow>
      (lacks payload ''name'' \<longrightarrow> transform_one py payload = Inl (KeyError ''name'')) \<and>
      (py_getitem payload ''name'' = Inr name_v \<longrightarrow>
         (lacks payload ''height'' \<longrightarrow> transform_one py payload = Inl (KeyError ''height'')) \<and>
         (py_getitem payload ''height'' = Inr height_v \<and> py_int height_v = Inr dm \<longrightarrow>
            (lacks payload ''weight'' \<longrightarrow> transform_one py payload = Inl (KeyError ''weight'')))))) \<and>
   ((lacks t ''type'' \<longrightarrow> transform_type t = Inl (KeyError ''type'')) \<and>
   (py_getitem t ''type'' = Inr ref \<longrightarrow>
      (lacks ref ''name'' \<longrightarrow> transform_type t = Inl (KeyError ''name'')) \<and>
      (py_getitem ref ''name'' = Inr nm \<longrightarrow>
         (lacks ref ''url'' \<longrightarrow> transform_type t = Inl (KeyError ''url'')) \<and>
         (py_getitem ref ''url'' = Inr u \<and> id_from_url_json u = Inr n \<longrightarrow>
            (lacks t ''slot'' \<longrightarrow> transform_type t = Inl (KeyError ''slot'')))))) \<and>
   ((lacks a ''ability'' \<longrightarrow> transform_ability a = Inl (KeyError ''ability'')) \<and>
   (py_getitem a ''ability'' = Inr ref \<longrightarrow>
      (lacks ref ''name'' \<longrightarrow> transform_ability a = Inl (KeyError ''name'')) \<and>
      (py_getitem ref ''name'' = Inr nm \<longrightarrow>
         (lacks ref ''url'' \<longrightarrow> transform_ability a = Inl (KeyError ''url'')) \<and>
         (py_getitem ref ''url'' = Inr u \<and> id_from_url_json u = Inr n \<longrightarrow>
            (lacks a ''is_hidden'' \<longrightarrow> transform_ability a = Inl (KeyError ''is_hidden'')) \<and>
            (py_getitem a ''is_hidden'' = Inr h \<longrightarrow>
               (lacks a ''slot'' \<longrightarrow> transform_ability a = Inl (KeyError ''slot''))))))) \<and>
   ((lacks s ''stat'' \<longrightarrow> transform_stat s = Inl (KeyError ''stat'')) \<and>
   (py_getitem s ''stat'' = Inr ref \<longrightarrow>
      (lacks ref ''name'' \<longrightarrow> transform_stat s = Inl (KeyError ''name'')) \<and>
      (py_getitem ref ''name'' = Inr nm \<longrightarrow>
         (lacks ref ''url'' \<longrightarrow> transform_stat s = Inl (KeyError ''url'')) \<and>
         (py_getitem ref ''url'' = Inr u \<and> id_from_url_json u = Inr n \<longrightarrow>
            (lacks s ''base_stat'' \<longrightarrow> transform_stat s = Inl (KeyError ''base_stat'')) \<and>
            (py_getitem s ''base_stat'' = Inr bs \<and> py_int bs = Inr bn \<longrightarrow>
               (lacks s ''effort'' \<longrightarrow> transform_stat s = Inl (KeyError ''effort''))))))) \<and>
   (py_getitem payload ''id'' = Inr id_v \<and> py_int id_v = Inr pid \<and>
    py_getitem payload ''name'' = Inr name_v \<and>
    py_getitem payload ''height'' = Inr height_v \<and> py_int height_v = Inr dm \<and>
    py_getitem payload ''weight'' = Inr weight_v \<and> py_int weight_v = Inr hg \<and>
    to_kg hg = Inr wk \<and> bmi (to_cm dm) wk = Inr b \<and>
    py_get payload ''sprites'' (JDict []) = Inr sp \<and>
    py_get sp ''front_default'' JNull = Inr sprite \<longrightarrow>
      (py_get payload ''types'' (JList []) = Inr tv \<and> py_iter tv = Inr (tpre @ t' # tpost) \<and>
       map_exn transform_type tpre = Inr tdone \<and> transform_type t' = Inl e
         \<longrightarrow> transform_one py payload = Inl e) \<and>
      (py_get payload ''types'' (JList []) = Inr tv \<and> py_iter tv = Inr ts \<and>
       map_exn transform_type ts = Inr types \<longrightarrow>
         (py_get payload ''abilities'' (JList []) = Inr av \<and> py_iter av = Inr (apre @ a' # apost) \<and>
          map_exn transform_ability apre = Inr adone \<and> transform_ability a' = Inl e
            \<longrightarrow> transform_one py payload = Inl e) \<and>
         (py_get payload ''abilities'' (JList []) = Inr av \<and> py_iter av = Inr as \<and>
          map_exn transform_ability as = Inr abilities \<and>
          py_get payload ''stats'' (JList []) = Inr sv \<and> py_iter sv = Inr (spre @ s' # spost) \<and>
          map_exn transform_stat spre = Inr sdone \<and> transform_stat s' = Inl e
            \<longrightarrow> transform_one py payload = Inl e))) \<and>
   (map_exn (transform_one py) ppre = Inr rs \<and> transform_one py p = Inl e \<longrightarrow>
      map_exn (transform_one py) (ppre @ p # ppost) = Inl e) \<and>
   (fetch_pokemon_list cfg (net ev) limit offset = Inr listing \<and> py_iter listing = Inr items \<and>
    map_exn (\<lambda>item. py_getitem item ''name'') items = Inr targets \<and>
    fetch_pokemon_details cfg (net ev) (finish ev) targets = Some (Inr details) \<and>
    map_exn (transform_one (py_str ev)) details = Inl e \<longrightarrow>
      run_etl cfg ev limit offset db = Some (Inl e, db)) \<and>
   ((k, d) \<in> set [(''base_experience'', JNull), (''sprites'', JDict []), (''types'', JList []),
                   (''abilities'', JList []), (''stats'', JList [])] \<and> lacks (JDict kvs) k \<longrightarrow>
      transform_one py (JDict kvs) = transform_one py (JDict (kvs @ [(k, d)]))) \<and>
   (to_kg hgm = Inr wkm \<and> bmi (to_cm dmm) wkm = Inr bm \<longrightarrow>
      transform_one py (JDict [(''id'', JInt pidm), (''name'', JStr namem), (''height'', JInt dmm),
                               (''weight'', JInt hgm)]) =
      Inr \<lparr> tp_id = pidm, tp_name = namem, tp_base_experience = JNull, tp_height_cm = dmm * 10,
            tp_weight_kg = wkm, tp_bmi = bm, tp_sprite_url = JNull,
            tp_types = [], tp_abilities = [], tp_stats = [] \<rparr>)"
proof -
  have 1: "(lacks payload ''id'' \<longrightarrow> transform_one py payload = Inl (KeyError ''id'')) \<and>
   (py_getitem payload ''id'' = Inr id_v \<and> py_int id_v = Inr pid \<longrightarrow>
      (lacks payload ''name'' \<longrightarrow> transform_one py payload = Inl (KeyError ''name'')) \<and>
      (py_getitem payload ''name'' = Inr name_v \<longrightarrow>
         (lacks payload ''height'' \<longrightarrow> transform_one py payload = Inl (KeyError ''height'')) \<and>
         (py_getitem payload ''height'' = Inr height_v \<and> py_int height_v = Inr dm \<longrightarrow>
            (lacks payload ''weight'' \<longrightarrow> transform_one py payload = Inl (KeyError ''weight'')))))" by (rule transform_one_scalars)
  have 2: "(lacks t ''type'' \<longrightarrow> transform_type t = Inl (KeyError ''type'')) \<and>
   (py_getitem t ''type'' = Inr ref \<longrightarrow>
      (lacks ref ''name'' \<longrightarrow> transform_type t = Inl (KeyError ''name'')) \<and>
      (py_getitem ref ''name'' = Inr nm \<longrightarrow>
         (lacks ref ''url'' \<longrightarrow> transform_type t = Inl (KeyError ''url'')) \<and>
         (py_getitem ref ''url'' = Inr u \<and> id_from_url_json u = Inr n \<longrightarrow>
            (lacks t ''slot'' \<longrightarrow> transform_type t = Inl (KeyError ''slot'')))))" by (rule transform_type_KeyError)
  have 3: "(lacks a ''ability'' \<longrightarrow> transform_ability a = Inl (KeyError ''ability'')) \<and>
   (py_getitem a ''ability'' = Inr ref \<longrightarrow>
      (lacks ref ''name'' \<longrightarrow> transform_ability a = Inl (KeyError ''name'')) \<and>
      (py_getitem ref ''name'' = Inr nm \<longrightarrow>
         (lacks ref ''url'' \<longrightarrow> transform_ability a = Inl (KeyError ''url'')) \<and>
         (py_getitem ref ''url'' = Inr u \<and> id_from_url_json u = Inr n \<longrightarrow>
            (lacks a ''is_hidden'' \<longrightarrow> transform_ability a = Inl (KeyError ''is_hidden'')) \<and>
            (py_getitem a ''is_hidden'' = Inr h \<longrightarrow>
               (lacks a ''slot'' \<longrightarrow> transform_ability a = Inl (KeyError ''slot''))))))" by (rule transform_ability_KeyError)
  have 4: "(lacks s ''stat'' \<longrightarrow> transform_stat s = Inl (KeyError ''stat'')) \<and>
   (py_getitem s ''stat'' = Inr ref \<longrightarrow>
      (lacks ref ''name'' \<longrightarrow> transform_stat s = Inl (KeyError ''name'')) \<and>
      (py_getitem ref ''name'' = Inr nm \<longrightarrow>
         (lacks ref ''url'' \<longrightarrow> transform_stat s = Inl (KeyError ''url'')) \<and>
         (py_getitem ref ''url'' = Inr u \<and> id_from_url_json u = Inr n \<longrightarrow>
            (lacks s ''base_stat'' \<longrightarrow> transform_stat s = Inl (KeyError ''base_stat'')) \<and>
            (py_getitem s ''base_stat'' = Inr bs \<and> py_int bs = Inr bn \<longrightarrow>
               (lacks s ''effort'' \<longrightarrow> transform_stat s = Inl (KeyError ''effort''))))))" by (rule transform_stat_KeyError)
  have 5: "py_getitem payload ''id'' = Inr id_v \<and> py_int id_v = Inr pid \<and>
    py_getitem payload ''name'' = Inr name_v \<and>
    py_getitem payload ''height'' = Inr height_v \<and> py_int height_v = Inr dm \<and>
    py_getitem payload ''weight'' = Inr weight_v \<and> py_int weight_v = Inr hg \<and>
    to_kg hg = Inr wk \<and> bmi (to_cm dm) wk = Inr b \<and>
    py_get payload ''sprites'' (JDict []) = Inr sp \<and>
    py_get sp ''front_default'' JNull = Inr sprite \<longrightarrow>
      (py_get payload ''types'' (JList []) = Inr tv \<and> py_iter tv = Inr (tpre @ t' # tpost) \<and>
       map_exn transform_type tpre = Inr tdone \<and> transform_type t' = Inl e
         \<longrightarrow> transform_one py payload = Inl e) \<and>
      (py_get payload ''types'' (JList []) = Inr tv \<and> py_iter tv = Inr ts \<and>
       map_exn transform_type ts = Inr types \<longrightarrow>
         (py_get payload ''abilities'' (JList []) = Inr av \<and> py_iter av = Inr (apre @ a' # apost) \<and>
          map_exn transform_ability apre = Inr adone \<and> transform_ability a' = Inl e
            \<longrightarrow> transform_one py payload = Inl e) \<and>
         (py_get payload ''abilities'' (JList []) = Inr av \<and> py_iter av = Inr as \<and>
          map_exn transform_ability as = Inr abilities \<and>
          py_get payload ''stats'' (JList []) = Inr sv \<and> py_iter sv = Inr (spre @ s' # spost) \<and>
          map_exn transform_stat spre = Inr sdone \<and> transform_stat s' = Inl e
            \<longrightarrow> transform_one py payload = Inl e))"
  proof (intro impI, elim conjE)
    assume a: "py_getitem payload ''id'' = Inr id_v" "py_int id_v = Inr pid"
      "py_getitem payload ''name'' = Inr name_v"
      "py_getitem payload ''height'' = Inr height_v" "py_int height_v = Inr dm"
      "py_getitem payload ''weight'' = Inr weight_v" "py_int weight_v = Inr hg"
      "to_kg hg = Inr wk" "bmi (to_cm dm) wk = Inr b"
      "py_get payload ''sprites'' (JDict []) = Inr sp"
      "py_get sp ''front_default'' JNull = Inr sprite"
    note l = transform_one_loops[OF a, of py]
    show "(py_get payload ''types'' (JList []) = Inr tv \<and> py_iter tv = Inr (tpre @ t' # tpost) \<and>
       map_exn transform_type tpre = Inr tdone \<and> transform_type t' = Inl e
         \<longrightarrow> transform_one py payload = Inl e) \<and>
      (py_get payload ''types'' (JList []) = Inr tv \<and> py_iter tv = Inr ts \<and>
       map_exn transform_type ts = Inr types \<longrightarrow>
         (py_get payload ''abilities'' (JList []) = Inr av \<and> py_iter av = Inr (apre @ a' # apost) \<and>
          map_exn transform_ability apre = Inr adone \<and> transform_ability a' = Inl e
            \<longrightarrow> transform_one py payload = Inl e) \<and>
         (py_get payload ''abilities'' (JList []) = Inr av \<and> py_iter av = Inr as \<and>
          map_exn transform_ability as = Inr abilities \<and>
          py_get payload ''stats'' (JList []) = Inr sv \<and> py_iter sv = Inr (spre @ s' # spost) \<and>
          map_exn transform_stat spre = Inr sdone \<and> transform_stat s' = Inl e
            \<longrightarrow> transform_one py payload = Inl e))"
      unfolding l
      by (auto simp: bind_exn_def map_exn_first_failure)
  qed
  have 6: "map_exn (transform_one py) ppre = Inr rs \<and> transform_one py p = Inl e \<longrightarrow>
      map_exn (transform_one py) (ppre @ p # ppost) = Inl e"
    by (auto intro: map_exn_first_failure)
  have 7: "fetch_pokemon_list cfg (net ev) limit offset = Inr listing \<and> py_iter listing = Inr items \<and>
    map_exn (\<lambda>item. py_getitem item ''name'') items = Inr targets \<and>
    fetch_pokemon_details cfg (net ev) (finish ev) targets = Some (Inr details) \<and>
    map_exn (transform_one (py_str ev)) details = Inl e \<longrightarrow>
      run_etl cfg ev limit offset db = Some (Inl e, db)"
    by (simp add: run_etl_def extract_transform_def bind_exn_def)
  have 8: "(k, d) \<in> set [(''base_experience'', JNull), (''sprites'', JDict []), (''types'', JList []),
                   (''abilities'', JList []), (''stats'', JList [])] \<and> lacks (JDict kvs) k \<longrightarrow>
      transform_one py (JDict kvs) = transform_one py (JDict (kvs @ [(k, d)]))"
    using transform_one_defaults[of k d kvs py] by blast
  have 9: "to_kg hgm = Inr wkm \<and> bmi (to_cm dmm) wkm = Inr bm \<longrightarrow>
      transform_one py (JDict [(''id'', JInt pidm), (''name'', JStr namem), (''height'', JInt dmm),
                               (''weight'', JInt hgm)]) =
      Inr \<lparr> tp_id = pidm, tp_name = namem, tp_base_experience = JNull, tp_height_cm = dmm * 10,
            tp_weight_kg = wkm, tp_bmi = bm, tp_sprite_url = JNull,
            tp_types = [], tp_abilities = [], tp_stats = [] \<rparr>"
    by (blast intro: transform_one_minimal)
  show ?thesis
    by (rule conjI[OF 1 conjI[OF 2 conjI[OF 3 conjI[OF 4 conjI[OF 5 conjI[OF 6 conjI[OF 7
        conjI[OF 8 9]]]]]]]])
qed


theorem C8_missing_field_witness:
  "transform_one (\<lambda>v. []) (JDict [(''id'', JInt 1)]) = Inl (KeyError ''name'') \<and>
   transform_type
     (JDict [(''type'', JDict [(''name'', JStr ''grass''),
                               (''url'', JStr ''https://pokeapi.co/api/v2/type/12/'')])])
     = Inl (KeyError ''slot'') \<and>
   transform_one (\<lambda>v. [])
     (JDict [(''id'', JInt 1), (''name'', JStr ''bulbasaur''), (''height'', JInt 7),
             (''weight'', JInt 69),
             (''types'', JList [JDict [(''type'', JDict [(''name'', JStr ''grass''),
                (''url'', JStr ''https://pokeapi.co/api/v2/type/12/'')])]])])
     = Inl (KeyError ''slot'') \<and>
   map_exn (transform_one (\<lambda>v. []))
     [sample_pokemon_payload,
      JDict [(''id'', JInt 1), (''name'', JStr ''bulbasaur''), (''height'', JInt 7),
             (''weight'', JInt 69),
             (''types'', JList [JDict [(''type'', JDict [(''name'', JStr ''grass''),
                (''url'', JStr ''https://pokeapi.co/api/v2/type/12/'')])]])]]
     = Inl (KeyError ''slot'')"
proof -
  let ?py = "\<lambda>v::json. []::string"
  let ?ref = "JDict [(''name'', JStr ''grass''),
                     (''url'', JStr ''https://pokeapi.co/api/v2/type/12/'')]"
  let ?E = "JDict [(''type'', ?ref)]"
  let ?W = "JDict [(''id'', JInt 1), (''name'', JStr ''bulbasaur''), (''height'', JInt 7),
             (''weight'', JInt 69), (''types'', JList [?E])]"
  let ?q = "JDict [(''id'', JInt 1)]"
  note A = C8_missing_field[where payload = ?q and py = ?py and id_v = "JInt 1" and pid = 1]
  have a: "transform_one ?py ?q = Inl (KeyError ''name'')"
    using A by (simp add: lacks_def py_getitem_def py_int_def)
  note B = C8_missing_field[where payload = ?W and py = ?py and id_v = "JInt 1" and pid = 1
      and name_v = "JStr ''bulbasaur''" and height_v = "JInt 7" and dm = 7
      and weight_v = "JInt 69" and hg = 69
      and wk = "Finite (3884354678607053 / 562949953421312)"
      and b = "Some (Finite (1981813611534211 / 140737488355328))"
      and sp = "JDict []" and sprite = JNull and tv = "JList [?E]"
      and tpre = "[]" and t' = ?E and tpost = "[]" and tdone = "[]" and e = "KeyError ''slot''"
      and t = ?E and ref = ?ref and nm = "JStr ''grass''"
      and u = "JStr ''https://pokeapi.co/api/v2/type/12/''" and n = 12
      and ppre = "[sample_pokemon_payload]" and rs = "[sample_record]" and p = ?W and ppost = "[]"]
  have u: "id_from_url_json (JStr ''https://pokeapi.co/api/v2/type/12/'') = Inr 12"
    by (simp add: id_from_url_json_def locator_eval)
  have e: "transform_type ?E = Inl (KeyError ''slot'')"
    using B u by (simp add: lacks_def py_getitem_def)
  have bf: "bmi (to_cm 7) (Finite (3884354678607053 / 562949953421312)) =
          Inr (Some (Finite (1981813611534211 / 140737488355328)))"
    by (simp add: to_cm_def bmi_70)
  have w: "transform_one ?py ?W = Inl (KeyError ''slot'')"
    using B e to_kg_69 bf by (simp add: py_getitem_def py_get_def py_int_def py_iter_def)
  have pre: "map_exn (transform_one ?py) [sample_pokemon_payload] = Inr [sample_record]"
    by (simp add: transform_sample bind_exn_def)
  have m: "map_exn (transform_one ?py) [sample_pokemon_payload, ?W] = Inl (KeyError ''slot'')"
    using B w pre by simp
  from a e w m show ?thesis by blast
qed

section \<open>Properties of the pipeline\<close>

lemma load_batch_count: "snd (load_batch s batch) = int (length batch)"
  by (simp add: load_batch_def)

lemma session_scope_value:
  "session_scope clk db body = (Inr v, db') \<Longrightarrow>
   \<exists>s1. body (SessionLocal clk db) = (Inr v, s1)"
  unfolding session_scope_def Let_def
  by (auto split: prod.splits sum.splits)

lemma load_count: "load clk db items = (Inr n, db') \<Longrightarrow> n = int (length items)"
proof -
  assume "load clk db items = (Inr n, db')"
  from session_scope_value[OF this[unfolded load_def]]
  show ?thesis by (auto simp: load_batch_def)
qed

text \<open>
  Claim C5: \<^verbatim>\<open>load_batch\<close> returns the size of the batch it was given, and a run of
  \<^verbatim>\<open>run_etl\<close> that returns \<open>(requested, loaded)\<close> has fetched a listing whose number of items
  is \<open>requested\<close>, and \<open>loaded = requested\<close>.
\<close>

theorem C5_requested_loaded:
  "snd (load_batch s batch) = int (length batch) \<and>
   (run_etl cfg ev limit offset db = Some (Inr (requested, loaded), db') \<longrightarrow>
      (\<exists>listing items.
         fetch_pokemon_list cfg (net ev) limit offset = Inr listing \<and>
         py_iter listing = Inr items \<and>
         requested = int (length items) \<and> loaded = requested))"
proof (intro conjI impI)
  show "snd (load_batch s batch) = int (length batch)" by (rule load_batch_count)
next
  assume run: "run_etl cfg ev limit offset db = Some (Inr (requested, loaded), db')"
  then obtain records where
    et: "extract_transform cfg (net ev) (finish ev) (py_str ev) limit offset = Some (Inr records)"
    and ld: "load (now ev) db records = (Inr loaded, db')"
    and rq: "requested = int (length records)"
    unfolding run_etl_def by (auto split: option.splits sum.splits prod.splits)
  from et obtain listing targets details where
    l: "fetch_pokemon_list cfg (net ev) limit offset = Inr listing"
    and tg: "bind_exn (py_iter listing) (map_exn (\<lambda>item. py_getitem item ''name'')) = Inr targets"
    and fd: "fetch_pokemon_details cfg (net ev) (finish ev) targets = Some (Inr details)"
    and tr: "map_exn (transform_one (py_str ev)) details = Inr records"
    unfolding extract_transform_def by (auto split: option.splits sum.splits)
  from tg obtain items where it: "py_iter listing = Inr items"
    and nm: "map_exn (\<lambda>item. py_getitem item ''name'') items = Inr targets"
    by (auto simp: bind_exn_Inr)
  from fd have "gather (finish ev) (map result (fetch_all cfg (net ev) targets)) = Inr details
      \<or> targets = []"
    unfolding fetch_pokemon_details_def  by (auto split: if_splits)
  then have "length details = length targets"
  proof
    assume "gather (finish ev) (map result (fetch_all cfg (net ev) targets)) = Inr details"
    from gather_Inr[OF this] show ?thesis by (simp add: length_fetch_all)
  next
    assume e: "targets = []"
    with fd show ?thesis
      unfolding fetch_pokemon_details_def
      by (auto split: if_splits simp: gather_def fetch_all_def enumerate_eq_zip)
  qed
  moreover have "length records = length details" using tr by (rule map_exn_length)
  moreover have "length targets = length items" using nm by (rule map_exn_length)
  moreover have "loaded = int (length records)" using ld by (rule load_count)
  ultimately show "\<exists>listing items.
         fetch_pokemon_list cfg (net ev) limit offset = Inr listing \<and>
         py_iter listing = Inr items \<and>
         requested = int (length items) \<and> loaded = requested"
    using l it rq by auto
qed

lemmas merge_eval =
  merge_pokemon_def merge_type_def merge_ability_def merge_stat_def
  merge_pokemon_type_def merge_pokemon_ability_def merge_pokemon_stat_def
  merge_def keys_def copy_all_def copy_pokemon_def

lemma ref_maps_sample:
  "ref_maps [sample_record] =
     ([(12, JStr ''grass''), (4, JStr ''poison'')],
      [(65, JStr ''overgrow''), (34, JStr ''chlorophyll'')],
      [(1, JStr ''hp''), (2, JStr ''attack'')])"
  by (simp add: ref_maps_def sample_record_def)


lemma upsert_reference_sample:
  assumes "ref_maps batch =
     ([(12, JStr ''grass''), (4, JStr ''poison'')],
      [(65, JStr ''overgrow''), (34, JStr ''chlorophyll'')],
      [(1, JStr ''hp''), (2, JStr ''attack'')])"
  shows "upsert_reference_batch (SessionLocal clk empty_store) batch =
     \<lparr> committed = empty_store, persistent = empty_store,
       pending = \<lparr> pokemon = [],
                   type_tbl = [(12, JStr ''grass''), (4, JStr ''poison'')],
                   ability = [(65, JStr ''overgrow''), (34, JStr ''chlorophyll'')],
                   stat = [(1, JStr ''hp''), (2, JStr ''attack'')],
                   pokemon_type = [], pokemon_ability = [], pokemon_stat = [] \<rparr>,
       clock = clk \<rparr>"
proof -
  have e: "pokemon empty_store = []" "type_tbl empty_store = []" "ability empty_store = []"
    "stat empty_store = []" "pokemon_type empty_store = []" "pokemon_ability empty_store = []"
    "pokemon_stat empty_store = []"
    by (simp_all add: empty_store_def)
  have "empty_store = \<lparr> pokemon = [], type_tbl = [], ability = [], stat = [],
       pokemon_type = [], pokemon_ability = [], pokemon_stat = [] \<rparr>"
    by (simp add: empty_store_def)
  then show ?thesis
    by (simp add: upsert_reference_batch_def assms SessionLocal_def merge_eval e)
qed

lemma upsert_pokemon_sample:
  "upsert_pokemon
     \<lparr> committed = c, persistent = empty_store,
       pending = \<lparr> pokemon = ps, type_tbl = ts, ability = as, stat = ss,
                   pokemon_type = pt, pokemon_ability = pa, pokemon_stat = pst \<rparr>,
       clock = clk \<rparr> sample_record =
     \<lparr> committed = c, persistent = empty_store,
       pending = \<lparr> pokemon = ps @ [(1, Pokemon sample_record)],
                   type_tbl = ts, ability = as, stat = ss,
                   pokemon_type = pt @ [((1, 12), 1), ((1, 4), 2)],
                   pokemon_ability = pa @ [((1, 65), False, 1), ((1, 34), True, 3)],
                   pokemon_stat = pst @ [((1, 1), 45, 0), ((1, 2), 49, 0)] \<rparr>,
       clock = clk \<rparr>"
proof -
  have f: "tp_id sample_record = 1"
    "tp_types sample_record = [(12, JStr ''grass'', 1), (4, JStr ''poison'', 2)]"
    "tp_abilities sample_record = [(65, JStr ''overgrow'', False, 1), (34, JStr ''chlorophyll'', True, 3)]"
    "tp_stats sample_record = [(1, JStr ''hp'', 45, 0), (2, JStr ''attack'', 49, 0)]"
    by (simp_all add: sample_record_def)
  have e: "pokemon empty_store = []" "type_tbl empty_store = []" "ability empty_store = []"
    "stat empty_store = []" "pokemon_type empty_store = []" "pokemon_ability empty_store = []"
    "pokemon_stat empty_store = []"
    by (simp_all add: empty_store_def)
  show ?thesis
    unfolding upsert_pokemon_def Let_def f
    by (simp add: merge_eval e)
qed

lemma load_sample: "load (\<lambda>k. 0) empty_store [sample_record] = (Inr 1, sample_store)"
proof -
  have "fst (load_batch (SessionLocal (\<lambda>k. 0) empty_store) [sample_record]) =
     \<lparr> committed = empty_store, persistent = empty_store,
       pending = \<lparr> pokemon = [(1, Pokemon sample_record)],
                   type_tbl = [(12, JStr ''grass''), (4, JStr ''poison'')],
                   ability = [(65, JStr ''overgrow''), (34, JStr ''chlorophyll'')],
                   stat = [(1, JStr ''hp''), (2, JStr ''attack'')],
                   pokemon_type = [((1, 12), 1), ((1, 4), 2)],
                   pokemon_ability = [((1, 65), False, 1), ((1, 34), True, 3)],
                   pokemon_stat = [((1, 1), 45, 0), ((1, 2), 49, 0)] \<rparr>,
       clock = (\<lambda>k. 0) \<rparr>" (is "_ = ?s")
    by (simp add: load_batch_def upsert_reference_sample[OF ref_maps_sample]
        upsert_pokemon_sample)
  moreover have "commit ?s = (Inr (), ?s\<lparr> committed := sample_store, persistent := sample_store, pending := empty_store \<rparr>)"
    by (simp add: commit_def flush_def server_default_def bind_exn_def keys_def Pokemon_def
        sample_record_def sample_store_def empty_store_def
        constraints_def unique_names_def names_not_null_def foreign_keys_def)
  ultimately show ?thesis
    by (simp add: load_def session_scope_def load_batch_def split: prod.splits)
qed


lemma extract_sample:
  "extract_transform default_config (net sample_env) (finish sample_env) (py_str sample_env) 2 0
     = Some (Inr [sample_record])"
  by (simp add: extract_transform_def fetch_pokemon_list_def fetch_json_def default_config_def
      sample_env_def json_eval fetch_pokemon_details_def fetch_all_def one_def gather_def
      transform_sample eval_nat_numeral enumerate_eq_zip)

lemma run_sample: "run_etl default_config sample_env 2 0 empty_store = Some (Inr (1, 1), sample_store)"
proof -
  have "now sample_env = (\<lambda>k. 0)" by (simp add: sample_env_def)
  then show ?thesis by (simp add: run_etl_def extract_sample load_sample)
qed


theorem C5_requested_loaded_witness:
  "\<exists>listing items.
     fetch_pokemon_list default_config (net sample_env) 2 0 = Inr listing \<and>
     py_iter listing = Inr items \<and> (1::int) = int (length items)"
  using C5_requested_loaded[of "SessionLocal (\<lambda>k. 0) empty_store" "[]"
      default_config sample_env 2 0 empty_store 1 1 sample_store] run_sample
  by blast

section \<open>Properties of the semaphore\<close>

lemma count_update:
  "i < length xs \<Longrightarrow>
   length (filter P (xs[i := y])) + (if P (xs ! i) then 1 else 0)
     = length (filter P xs) + (if P y then 1 else 0)"
proof (induction xs arbitrary: i)
  case Nil
  then show ?case by simp
next
  case (Cons x xs)
  show ?case
  proof (cases i)
    case 0
    then show ?thesis by simp
  next
    case (Suc j)
    with Cons.prems have "j < length xs" by simp
    from Cons.IH[OF this] Suc show ?thesis by simp
  qed
qed

lemma step_invariant:
  assumes "step s s'"
  shows "sem_value s' + in_flight s' = sem_value s + in_flight s \<and>
         length (tasks s') = length (tasks s)"
  using assms
proof cases
  case (acquire i)
  from count_update[OF acquire(2), of "\<lambda>t. t = Fetching" Fetching] acquire
  show ?thesis by (auto simp: in_flight_def)
next
  case (block i)
  from count_update[OF block(2), of "\<lambda>t. t = Fetching" Waiting] block
  show ?thesis by (auto simp: in_flight_def)
next
  case (release i)
  from count_update[OF release(2), of "\<lambda>t. t = Fetching" Done] release
  show ?thesis by (auto simp: in_flight_def)
next
  case (cancel i)
  from count_update[OF cancel(2), of "\<lambda>t. t = Fetching" Done] cancel
  show ?thesis by (auto simp: in_flight_def)
qed

lemma reachable_invariant:
  "reachable cfg n s \<Longrightarrow>
   0 \<le> MAX_CONCURRENCY cfg \<and>
   sem_value s + in_flight s = nat (MAX_CONCURRENCY cfg) \<and> length (tasks s) = n"
proof (induction rule: reachable.induct)
  case (start cfg n)
  then show ?case by (simp add: initial_def in_flight_def)
next
  case (advance cfg n s s')
  with step_invariant[OF advance.hyps(2)] show ?case by simp
qed

text \<open>
  Claim C9: in every state the tasks of \<^verbatim>\<open>fetch_pokemon_details\<close> can reach, at most
  \<^verbatim>\<open>MAX_CONCURRENCY\<close> of them are inside \<^verbatim>\<open>async with sem\<close>, and when that many are, no
  step lets another one in: the number inside cannot grow until one leaves.
\<close>

theorem C9_concurrency_bound:
  assumes "reachable cfg n s"
  shows "int (in_flight s) \<le> MAX_CONCURRENCY cfg \<and>
         (int (in_flight s) = MAX_CONCURRENCY cfg \<longrightarrow>
            (\<forall>s'. step s s' \<longrightarrow> in_flight s' \<le> in_flight s))"
proof
  from reachable_invariant[OF assms]
  show b: "int (in_flight s) \<le> MAX_CONCURRENCY cfg" by linarith
  show "int (in_flight s) = MAX_CONCURRENCY cfg \<longrightarrow>
            (\<forall>s'. step s s' \<longrightarrow> in_flight s' \<le> in_flight s)"
  proof (intro impI allI)
    fix s' assume full: "int (in_flight s) = MAX_CONCURRENCY cfg" and st: "step s s'"
    from assms st have "reachable cfg n s'" by (rule reachable.advance)
    from reachable_invariant[OF this] have "int (in_flight s') \<le> MAX_CONCURRENCY cfg"
      by linarith
    with full show "in_flight s' \<le> in_flight s" by linarith
  qed
qed

theorem C9_concurrency_bound_witness:
  "int (in_flight \<lparr> sem_value = 0, tasks = [Fetching, Created] \<rparr>)
     \<le> MAX_CONCURRENCY (default_config\<lparr> MAX_CONCURRENCY := 1 \<rparr>)"
proof -
  let ?cfg = "default_config\<lparr> MAX_CONCURRENCY := 1 \<rparr>"
  have r0: "reachable ?cfg 2 (initial ?cfg 2)" by (rule reachable.start) simp
  have "step (initial ?cfg 2)
          ((initial ?cfg 2)\<lparr> sem_value := sem_value (initial ?cfg 2) - 1,
                              tasks := (tasks (initial ?cfg 2))[0 := Fetching] \<rparr>)"
    by (rule step.acquire) (simp_all add: initial_def)
  then have "step (initial ?cfg 2) \<lparr> sem_value = 0, tasks = [Fetching, Created] \<rparr>"
    by (simp add: initial_def eval_nat_numeral)
  with r0 have "reachable ?cfg 2 \<lparr> sem_value = 0, tasks = [Fetching, Created] \<rparr>"
    by (rule reachable.advance)
  from C9_concurrency_bound[OF this] show ?thesis by blast
qed

section \<open>Properties of the loader\<close>

lemma dom_map_of_keys: "dom (map_of t) = set (keys t)"
  by (simp add: keys_def dom_map_of_conv_image_fst)

lemma keys_overwrite [simp]: "keys (overwrite f k t) = keys t"
  by (induction t) (auto simp: keys_def)

lemma overwrite_absent: "k \<notin> set (keys t) \<Longrightarrow> overwrite f k t = t"
  by (induction t) (auto simp: keys_def)

lemma map_of_overwrite:
  "map_of (overwrite f k t) k' = (if k' = k then map_option f (map_of t k) else map_of t k')"
  by (induction t) auto

lemma keys_overwrite_all [simp]: "keys (overwrite_all copy ws t) = keys t"
  unfolding overwrite_all_def
  by (induction ws arbitrary: t) auto

lemma overwrite_all_snoc:
  "overwrite_all copy (ws @ [(k, obj)]) t = overwrite (\<lambda>old. copy old obj) k (overwrite_all copy ws t)"
  by (simp add: overwrite_all_def)

lemma map_of_overwrite_all:
  assumes absorb: "\<And>r a b. copy (copy r a) b = copy r b"
  shows "map_of (overwrite_all copy ws t) k =
           (case map_of (rev ws) k of
              None \<Rightarrow> map_of t k
            | Some obj \<Rightarrow> map_option (\<lambda>old. copy old obj) (map_of t k))"
proof (induction ws rule: rev_induct)
  case Nil
  then show ?case by (simp add: overwrite_all_def)
next
  case (snoc w ws)
  obtain k' obj' where w: "w = (k', obj')" by (cases w)
  show ?case
  proof (cases "k = k'")
    case True
    show ?thesis
      unfolding w overwrite_all_snoc map_of_overwrite
      using True snoc absorb
      by (auto split: option.splits simp: option.map_comp comp_def)
  next
    case False
    then show ?thesis
      unfolding w overwrite_all_snoc map_of_overwrite
      using snoc by simp
  qed
qed

lemma merge_all_eq:
  "merge_all copy ws (pers, pend) =
     (overwrite_all copy ws pers, pend @ filter (\<lambda>(k, obj). k \<notin> set (keys pers)) ws)"
proof (induction ws arbitrary: pers pend)
  case Nil
  then show ?case by (simp add: merge_all_def overwrite_all_def)
next
  case (Cons w ws)
  obtain k obj where w: "w = (k, obj)" by (cases w)
  have step: "merge_all copy (w # ws) (pers, pend) = merge_all copy ws (merge copy k obj (pers, pend))"
    by (simp add: merge_all_def w)
  show ?case
  proof (cases "k \<in> set (keys pers)")
    case True
    then have "merge copy k obj (pers, pend) = (overwrite (\<lambda>old. copy old obj) k pers, pend)"
      by (simp add: merge_def)
    with step Cons[of "overwrite (\<lambda>old. copy old obj) k pers" pend] True
    show ?thesis by (simp add: w overwrite_all_def)
  next
    case False
    then have "merge copy k obj (pers, pend) = (pers, pend @ [(k, obj)])"
      by (simp add: merge_def)
    with step Cons[of pers "pend @ [(k, obj)]"] False
    show ?thesis by (simp add: w overwrite_all_def overwrite_absent)
  qed
qed

lemma insert_rows_Inr:
  "insert_rows ps t = Inr t' \<longleftrightarrow>
     distinct (map fst ps) \<and> set (map fst ps) \<inter> set (keys t) = {} \<and> t' = t @ ps"
proof (induction ps arbitrary: t)
  case Nil
  then show ?case by auto
next
  case (Cons p ps)
  obtain k r where p: "p = (k, r)" by (cases p)
  show ?case unfolding p using Cons[of "t @ [(k, r)]"]
    by (auto simp: keys_def)
qed

lemma table_ext:
  "distinct (keys t) \<Longrightarrow> keys t = keys t' \<Longrightarrow>
   (\<And>k. k \<in> set (keys t) \<Longrightarrow> map_of t k = map_of t' k) \<Longrightarrow> t = t'"
proof (induction t arbitrary: t')
  case Nil
  then show ?case by (simp add: keys_def)
next
  case (Cons p t)
  obtain k r where p: "p = (k, r)" by (cases p)
  from Cons.prems(2) obtain r' u where t': "t' = (k, r') # u" and ku: "keys t = keys u"
    unfolding p keys_def by (cases t') auto
  from Cons.prems(1) have d: "distinct (keys t)" and kn: "k \<notin> set (keys t)"
    unfolding p keys_def by auto
  have "map_of (p # t) k = map_of t' k" using Cons.prems(3)[of k] p by (simp add: keys_def)
  then have rr: "r = r'" by (simp add: p t')
  have "map_of t j = map_of u j" if "j \<in> set (keys t)" for j
  proof -
    from that kn have "j \<noteq> k" by auto
    moreover have "map_of (p # t) j = map_of t' j"
      using Cons.prems(3)[of j] that by (simp add: keys_def p)
    ultimately show ?thesis by (simp add: p t')
  qed
  from Cons.IH[OF d ku this] rr show ?case by (simp add: p t')
qed

text \<open>
  Loading the same writes a second time, into the table the first load committed,
  changes nothing: every key is there, and each row already has what the last write to
  its key copies onto it.
\<close>

lemma merge_twice:
  fixes copy :: "'r \<Rightarrow> 'r \<Rightarrow> 'r" and g :: "'k \<Rightarrow> 'r \<Rightarrow> 'r"
  assumes absorb: "\<And>r a b. copy (copy r a) b = copy r b"
    and fresh: "\<And>k a. copy (g k a) a = g k a"
    and d: "distinct (keys t)"
    and m: "merge_all copy ws (t, []) = (a, b)"
    and i: "insert_rows (map (\<lambda>(k, r). (k, g k r)) b) a = Inr t1"
  shows "merge_all copy ws (t1, []) = (t1, []) \<and> distinct (keys t1)"
proof -
  let ?new = "filter (\<lambda>(k, obj). k \<notin> set (keys t)) ws"
  let ?g = "\<lambda>(k, r). (k, g k r)"
  from m have a: "a = overwrite_all copy ws t" and b: "b = ?new"
    by (simp_all add: merge_all_eq)
  have fg: "map fst (map ?g xs) = map fst xs" for xs :: "('k \<times> 'r) list"
    by (induction xs) auto
  from i have dn: "distinct (map fst ?new)"
    and dj: "set (map fst ?new) \<inter> set (keys t) = {}"
    and t1: "t1 = overwrite_all copy ws t @ map ?g ?new"
    unfolding insert_rows_Inr a b fg by simp_all
  have k1: "keys t1 = keys t @ map fst ?new"
    by (simp add: t1 keys_def[of "_ @ _"] fg) (simp add: keys_def[symmetric])
  have d1: "distinct (keys t1)" using d dn dj by (auto simp: k1)
  have allin: "fst w \<in> set (keys t1)" if "w \<in> set ws" for w
  proof (cases "fst w \<in> set (keys t)")
    case True
    then show ?thesis by (simp add: k1)
  next
    case False
    with that have "w \<in> set ?new" by (simp add: case_prod_beta)
    then have "fst w \<in> fst ` set ?new" by (rule imageI)
    then show ?thesis by (simp add: k1)
  qed
  have nonew: "filter (\<lambda>(k, obj). k \<notin> set (keys t1)) ws = []"
    using allin by (auto simp: filter_empty_conv)
  have same: "map_of (overwrite_all copy ws t1) k = map_of t1 k" if kin: "k \<in> set (keys t1)" for k
  proof (cases "map_of (rev ws) k")
    case None
    then show ?thesis by (simp add: map_of_overwrite_all[of copy, OF absorb])
  next
    case (Some obj)
    then have w: "(k, obj) \<in> set ws" by (auto dest: map_of_SomeD)
    have goal: "map_option (\<lambda>old. copy old obj) (map_of t1 k) = map_of t1 k"
    proof (cases "k \<in> set (keys t)")
      case True
      then have "k \<in> dom (map_of (overwrite_all copy ws t))"
        by (simp add: dom_map_of_keys)
      then have "map_of t1 k = map_of (overwrite_all copy ws t) k"
        by (auto simp: t1 map_add_dom_app_simps)
      also have "\<dots> = map_option (\<lambda>old. copy old obj) (map_of t k)"
        by (simp add: map_of_overwrite_all[of copy, OF absorb] Some)
      finally show ?thesis by (simp add: option.map_comp comp_def absorb)
    next
      case False
      then have "k \<notin> dom (map_of (overwrite_all copy ws t))"
        by (simp add: dom_map_of_keys)
      then have l: "map_of t1 k = map_of (map ?g ?new) k"
        by (auto simp: t1 map_add_dom_app_simps)
      from w False have kn: "(k, obj) \<in> set ?new" by simp
      have "map_of ?new k = Some obj" using dn kn by (rule map_of_is_SomeI)
      moreover have "map_of (map ?g xs) k = map_option (g k) (map_of xs k)"
        for xs :: "('k \<times> 'r) list"
        by (induction xs) auto
      ultimately have "map_of t1 k = Some (g k obj)" using l by simp
      then show ?thesis by (simp add: fresh)
    qed
    show ?thesis
      by (simp add: map_of_overwrite_all[of copy, OF absorb] Some goal)
  qed
  have "overwrite_all copy ws t1 = t1"
    by (rule table_ext[symmetric]) (use d1 same in simp_all)
  then show ?thesis using d1 by (simp add: merge_all_eq nonew)
qed

lemma merge_all_append:
  "merge_all copy (ws @ ws') pp = merge_all copy ws' (merge_all copy ws pp)"
  by (simp add: merge_all_def)

lemma acts_on_comp:
  assumes "acts_on f copy op1" and "acts_on f copy op2"
  shows "acts_on f copy (\<lambda>s. op2 (op1 s))"
proof -
  from assms obtain ws1 ws2
    where 1: "\<forall>s. tbl f (op1 s) = merge_all copy ws1 (tbl f s)"
      and 2: "\<forall>s. tbl f (op2 s) = merge_all copy ws2 (tbl f s)"
    unfolding acts_on_def by blast
  have "\<forall>s. tbl f (op2 (op1 s)) = merge_all copy (ws1 @ ws2) (tbl f s)"
    by (simp add: 1 2 merge_all_append)
  then show ?thesis unfolding acts_on_def by blast
qed

lemma acts_on_id: "acts_on f copy (\<lambda>s. s)"
  unfolding acts_on_def by (rule exI[of _ "[]"]) (simp add: merge_all_def)

lemma acts_on_foldl:
  assumes "acts_on f copy op" and "\<And>w. acts_on f copy (\<lambda>s. g s w)"
  shows "acts_on f copy (\<lambda>s. foldl g (op s) l)"
  using assms(1)
proof (induction l arbitrary: op)
  case Nil
  then show ?case by simp
next
  case (Cons w l)
  have "acts_on f copy (\<lambda>s. g (op s) w)"
    using acts_on_comp[OF Cons.prems assms(2)[of w]] .
  from Cons.IH[OF this] show ?case by simp
qed

lemma keeps_id: "keeps (\<lambda>s. s)"
  by (simp add: keeps_def)

lemma keeps_comp: "keeps op1 \<Longrightarrow> keeps op2 \<Longrightarrow> keeps (\<lambda>s. op2 (op1 s))"
  by (simp add: keeps_def)

lemma keeps_foldl:
  assumes "keeps op" and "\<And>w. keeps (\<lambda>s. g s w)"
  shows "keeps (\<lambda>s. foldl g (op s) l)"
  using assms(1)
proof (induction l arbitrary: op)
  case Nil
  then show ?case by simp
next
  case (Cons w l)
  have "keeps (\<lambda>s. g (op s) w)" using keeps_comp[OF Cons.prems assms(2)[of w]] .
  from Cons.IH[OF this] show ?case by simp
qed

lemma acts_on_pokemon_merge_pokemon: "acts_on pokemon copy_pokemon (merge_pokemon k obj)"
  unfolding acts_on_def
  by (rule exI[of _ "[(k, obj)]"]) (simp add: tbl_def merge_pokemon_def merge_all_def split: prod.splits)

lemma acts_on_type_tbl_merge_pokemon: "acts_on type_tbl copy_all (merge_pokemon k obj)"
  unfolding acts_on_def
  by (rule exI[of _ "[]"]) (simp add: tbl_def merge_pokemon_def merge_all_def split: prod.splits)

lemma acts_on_ability_merge_pokemon: "acts_on ability copy_all (merge_pokemon k obj)"
  unfolding acts_on_def
  by (rule exI[of _ "[]"]) (simp add: tbl_def merge_pokemon_def merge_all_def split: prod.splits)

lemma acts_on_stat_merge_pokemon: "acts_on stat copy_all (merge_pokemon k obj)"
  unfolding acts_on_def
  by (rule exI[of _ "[]"]) (simp add: tbl_def merge_pokemon_def merge_all_def split: prod.splits)

lemma acts_on_pokemon_type_merge_pokemon: "acts_on pokemon_type copy_all (merge_pokemon k obj)"
  unfolding acts_on_def
  by (rule exI[of _ "[]"]) (simp add: tbl_def merge_pokemon_def merge_all_def split: prod.splits)

lemma acts_on_pokemon_ability_merge_pokemon: "acts_on pokemon_ability copy_all (merge_pokemon k obj)"
  unfolding acts_on_def
  by (rule exI[of _ "[]"]) (simp add: tbl_def merge_pokemon_def merge_all_def split: prod.splits)

lemma acts_on_pokemon_stat_merge_pokemon: "acts_on pokemon_stat copy_all (merge_pokemon k obj)"
  unfolding acts_on_def
  by (rule exI[of _ "[]"]) (simp add: tbl_def merge_pokemon_def merge_all_def split: prod.splits)

lemma keeps_merge_pokemon: "keeps (merge_pokemon k obj)"
  by (simp add: keeps_def merge_pokemon_def split: prod.splits)

lemma acts_on_pokemon_merge_type: "acts_on pokemon copy_pokemon (merge_type k obj)"
  unfolding acts_on_def
  by (rule exI[of _ "[]"]) (simp add: tbl_def merge_type_def merge_all_def split: prod.splits)

lemma acts_on_type_tbl_merge_type: "acts_on type_tbl copy_all (merge_type k obj)"
  unfolding acts_on_def
  by (rule exI[of _ "[(k, obj)]"]) (simp add: tbl_def merge_type_def merge_all_def split: prod.splits)

lemma acts_on_ability_merge_type: "acts_on ability copy_all (merge_type k obj)"
  unfolding acts_on_def
  by (rule exI[of _ "[]"]) (simp add: tbl_def merge_type_def merge_all_def split: prod.splits)

lemma acts_on_stat_merge_type: "acts_on stat copy_all (merge_type k obj)"
  unfolding acts_on_def
  by (rule exI[of _ "[]"]) (simp add: tbl_def merge_type_def merge_all_def split: prod.splits)

lemma acts_on_pokemon_type_merge_type: "acts_on pokemon_type copy_all (merge_type k obj)"
  unfolding acts_on_def
  by (rule exI[of _ "[]"]) (simp add: tbl_def merge_type_def merge_all_def split: prod.splits)

lemma acts_on_pokemon_ability_merge_type: "acts_on pokemon_ability copy_all (merge_type k obj)"
  unfolding acts_on_def
  by (rule exI[of _ "[]"]) (simp add: tbl_def merge_type_def merge_all_def split: prod.splits)

lemma acts_on_pokemon_stat_merge_type: "acts_on pokemon_stat copy_all (merge_type k obj)"
  unfolding acts_on_def
  by (rule exI[of _ "[]"]) (simp add: tbl_def merge_type_def merge_all_def split: prod.splits)

lemma keeps_merge_type: "keeps (merge_type k obj)"
  by (simp add: keeps_def merge_type_def split: prod.splits)

lemma acts_on_pokemon_merge_ability: "acts_on pokemon copy_pokemon (merge_ability k obj)"
  unfolding acts_on_def
  by (rule exI[of _ "[]"]) (simp add: tbl_def merge_ability_def merge_all_def split: prod.splits)

lemma acts_on_type_tbl_merge_ability: "acts_on type_tbl copy_all (merge_ability k obj)"
  unfolding acts_on_def
  by (rule exI[of _ "[]"]) (simp add: tbl_def merge_ability_def merge_all_def split: prod.splits)

lemma acts_on_ability_merge_ability: "acts_on ability copy_all (merge_ability k obj)"
  unfolding acts_on_def
  by (rule exI[of _ "[(k, obj)]"]) (simp add: tbl_def merge_ability_def merge_all_def split: prod.splits)

lemma acts_on_stat_merge_ability: "acts_on stat copy_all (merge_ability k obj)"
  unfolding acts_on_def
  by (rule exI[of _ "[]"]) (simp add: tbl_def merge_ability_def merge_all_def split: prod.splits)

lemma acts_on_pokemon_type_merge_ability: "acts_on pokemon_type copy_all (merge_ability k obj)"
  unfolding acts_on_def
  by (rule exI[of _ "[]"]) (simp add: tbl_def merge_ability_def merge_all_def split: prod.splits)

lemma acts_on_pokemon_ability_merge_ability: "acts_on pokemon_ability copy_all (merge_ability k obj)"
  unfolding acts_on_def
  by (rule exI[of _ "[]"]) (simp add: tbl_def merge_ability_def merge_all_def split: prod.splits)

lemma acts_on_pokemon_stat_merge_ability: "acts_on pokemon_stat copy_all (merge_ability k obj)"
  unfolding acts_on_def
  by (rule exI[of _ "[]"]) (simp add: tbl_def merge_ability_def merge_all_def split: prod.splits)

lemma keeps_merge_ability: "keeps (merge_ability k obj)"
  by (simp add: keeps_def merge_ability_def split: prod.splits)

lemma acts_on_pokemon_merge_stat: "acts_on pokemon copy_pokemon (merge_stat k obj)"
  unfolding acts_on_def
  by (rule exI[of _ "[]"]) (simp add: tbl_def merge_stat_def merge_all_def split: prod.splits)

lemma acts_on_type_tbl_merge_stat: "acts_on type_tbl copy_all (merge_stat k obj)"
  unfolding acts_on_def
  by (rule exI[of _ "[]"]) (simp add: tbl_def merge_stat_def merge_all_def split: prod.splits)

lemma acts_on_ability_merge_stat: "acts_on ability copy_all (merge_stat k obj)"
  unfolding acts_on_def
  by (rule exI[of _ "[]"]) (simp add: tbl_def merge_stat_def merge_all_def split: prod.splits)

lemma acts_on_stat_merge_stat: "acts_on stat copy_all (merge_stat k obj)"
  unfolding acts_on_def
  by (rule exI[of _ "[(k, obj)]"]) (simp add: tbl_def merge_stat_def merge_all_def split: prod.splits)

lemma acts_on_pokemon_type_merge_stat: "acts_on pokemon_type copy_all (merge_stat k obj)"
  unfolding acts_on_def
  by (rule exI[of _ "[]"]) (simp add: tbl_def merge_stat_def merge_all_def split: prod.splits)

lemma acts_on_pokemon_ability_merge_stat: "acts_on pokemon_ability copy_all (merge_stat k obj)"
  unfolding acts_on_def
  by (rule exI[of _ "[]"]) (simp add: tbl_def merge_stat_def merge_all_def split: prod.splits)

lemma acts_on_pokemon_stat_merge_stat: "acts_on pokemon_stat copy_all (merge_stat k obj)"
  unfolding acts_on_def
  by (rule exI[of _ "[]"]) (simp add: tbl_def merge_stat_def merge_all_def split: prod.splits)

lemma keeps_merge_stat: "keeps (merge_stat k obj)"
  by (simp add: keeps_def merge_stat_def split: prod.splits)

lemma acts_on_pokemon_merge_pokemon_type: "acts_on pokemon copy_pokemon (merge_pokemon_type k obj)"
  unfolding acts_on_def
  by (rule exI[of _ "[]"]) (simp add: tbl_def merge_pokemon_type_def merge_all_def split: prod.splits)

lemma acts_on_type_tbl_merge_pokemon_type: "acts_on type_tbl copy_all (merge_pokemon_type k obj)"
  unfolding acts_on_def
  by (rule exI[of _ "[]"]) (simp add: tbl_def merge_pokemon_type_def merge_all_def split: prod.splits)

lemma acts_on_ability_merge_pokemon_type: "acts_on ability copy_all (merge_pokemon_type k obj)"
  unfolding acts_on_def
  by (rule exI[of _ "[]"]) (simp add: tbl_def merge_pokemon_type_def merge_all_def split: prod.splits)

lemma acts_on_stat_merge_pokemon_type: "acts_on stat copy_all (merge_pokemon_type k obj)"
  unfolding acts_on_def
  by (rule exI[of _ "[]"]) (simp add: tbl_def merge_pokemon_type_def merge_all_def split: prod.splits)

lemma acts_on_pokemon_type_merge_pokemon_type: "acts_on pokemon_type copy_all (merge_pokemon_type k obj)"
  unfolding acts_on_def
  by (rule exI[of _ "[(k, obj)]"]) (simp add: tbl_def merge_pokemon_type_def merge_all_def split: prod.splits)

lemma acts_on_pokemon_ability_merge_pokemon_type: "acts_on pokemon_ability copy_all (merge_pokemon_type k obj)"
  unfolding acts_on_def
  by (rule exI[of _ "[]"]) (simp add: tbl_def merge_pokemon_type_def merge_all_def split: prod.splits)

lemma acts_on_pokemon_stat_merge_pokemon_type: "acts_on pokemon_stat copy_all (merge_pokemon_type k obj)"
  unfolding acts_on_def
  by (rule exI[of _ "[]"]) (simp add: tbl_def merge_pokemon_type_def merge_all_def split: prod.splits)

lemma keeps_merge_pokemon_type: "keeps (merge_pokemon_type k obj)"
  by (simp add: keeps_def merge_pokemon_type_def split: prod.splits)

lemma acts_on_pokemon_merge_pokemon_ability: "acts_on pokemon copy_pokemon (merge_pokemon_ability k obj)"
  unfolding acts_on_def
  by (rule exI[of _ "[]"]) (simp add: tbl_def merge_pokemon_ability_def merge_all_def split: prod.splits)

lemma acts_on_type_tbl_merge_pokemon_ability: "acts_on type_tbl copy_all (merge_pokemon_ability k obj)"
  unfolding acts_on_def
  by (rule exI[of _ "[]"]) (simp add: tbl_def merge_pokemon_ability_def merge_all_def split: prod.splits)

lemma acts_on_ability_merge_pokemon_ability: "acts_on ability copy_all (merge_pokemon_ability k obj)"
  unfolding acts_on_def
  by (rule exI[of _ "[]"]) (simp add: tbl_def merge_pokemon_ability_def merge_all_def split: prod.splits)

lemma acts_on_stat_merge_pokemon_ability: "acts_on stat copy_all (merge_pokemon_ability k obj)"
  unfolding acts_on_def
  by (rule exI[of _ "[]"]) (simp add: tbl_def merge_pokemon_ability_def merge_all_def split: prod.splits)

lemma acts_on_pokemon_type_merge_pokemon_ability: "acts_on pokemon_type copy_all (merge_pokemon_ability k obj)"
  unfolding acts_on_def
  by (rule exI[of _ "[]"]) (simp add: tbl_def merge_pokemon_ability_def merge_all_def split: prod.splits)

lemma acts_on_pokemon_ability_merge_pokemon_ability: "acts_on pokemon_ability copy_all (merge_pokemon_ability k obj)"
  unfolding acts_on_def
  by (rule exI[of _ "[(k, obj)]"]) (simp add: tbl_def merge_pokemon_ability_def merge_all_def split: prod.splits)

lemma acts_on_pokemon_stat_merge_pokemon_ability: "acts_on pokemon_stat copy_all (merge_pokemon_ability k obj)"
  unfolding acts_on_def
  by (rule exI[of _ "[]"]) (simp add: tbl_def merge_pokemon_ability_def merge_all_def split: prod.splits)

lemma keeps_merge_pokemon_ability: "keeps (merge_pokemon_ability k obj)"
  by (simp add: keeps_def merge_pokemon_ability_def split: prod.splits)

lemma acts_on_pokemon_merge_pokemon_stat: "acts_on pokemon copy_pokemon (merge_pokemon_stat k obj)"
  unfolding acts_on_def
  by (rule exI[of _ "[]"]) (simp add: tbl_def merge_pokemon_stat_def merge_all_def split: prod.splits)

lemma acts_on_type_tbl_merge_pokemon_stat: "acts_on type_tbl copy_all (merge_pokemon_stat k obj)"
  unfolding acts_on_def
  by (rule exI[of _ "[]"]) (simp add: tbl_def merge_pokemon_stat_def merge_all_def split: prod.splits)

lemma acts_on_ability_merge_pokemon_stat: "acts_on ability copy_all (merge_pokemon_stat k obj)"
  unfolding acts_on_def
  by (rule exI[of _ "[]"]) (simp add: tbl_def merge_pokemon_stat_def merge_all_def split: prod.splits)

lemma acts_on_stat_merge_pokemon_stat: "acts_on stat copy_all (merge_pokemon_stat k obj)"
  unfolding acts_on_def
  by (rule exI[of _ "[]"]) (simp add: tbl_def merge_pokemon_stat_def merge_all_def split: prod.splits)

lemma acts_on_pokemon_type_merge_pokemon_stat: "acts_on pokemon_type copy_all (merge_pokemon_stat k obj)"
  unfolding acts_on_def
  by (rule exI[of _ "[]"]) (simp add: tbl_def merge_pokemon_stat_def merge_all_def split: prod.splits)

lemma acts_on_pokemon_ability_merge_pokemon_stat: "acts_on pokemon_ability copy_all (merge_pokemon_stat k obj)"
  unfolding acts_on_def
  by (rule exI[of _ "[]"]) (simp add: tbl_def merge_pokemon_stat_def merge_all_def split: prod.splits)

lemma acts_on_pokemon_stat_merge_pokemon_stat: "acts_on pokemon_stat copy_all (merge_pokemon_stat k obj)"
  unfolding acts_on_def
  by (rule exI[of _ "[(k, obj)]"]) (simp add: tbl_def merge_pokemon_stat_def merge_all_def split: prod.splits)

lemma keeps_merge_pokemon_stat: "keeps (merge_pokemon_stat k obj)"
  by (simp add: keeps_def merge_pokemon_stat_def split: prod.splits)

lemmas acts_on_merge =
  acts_on_pokemon_merge_pokemon acts_on_type_tbl_merge_pokemon acts_on_ability_merge_pokemon acts_on_stat_merge_pokemon
  acts_on_pokemon_type_merge_pokemon acts_on_pokemon_ability_merge_pokemon acts_on_pokemon_stat_merge_pokemon acts_on_pokemon_merge_type
  acts_on_type_tbl_merge_type acts_on_ability_merge_type acts_on_stat_merge_type acts_on_pokemon_type_merge_type
  acts_on_pokemon_ability_merge_type acts_on_pokemon_stat_merge_type acts_on_pokemon_merge_ability acts_on_type_tbl_merge_ability
  acts_on_ability_merge_ability acts_on_stat_merge_ability acts_on_pokemon_type_merge_ability acts_on_pokemon_ability_merge_ability
  acts_on_pokemon_stat_merge_ability acts_on_pokemon_merge_stat acts_on_type_tbl_merge_stat acts_on_ability_merge_stat
  acts_on_stat_merge_stat acts_on_pokemon_type_merge_stat acts_on_pokemon_ability_merge_stat acts_on_pokemon_stat_merge_stat
  acts_on_pokemon_merge_pokemon_type acts_on_type_tbl_merge_pokemon_type acts_on_ability_merge_pokemon_type acts_on_stat_merge_pokemon_type
  acts_on_pokemon_type_merge_pokemon_type acts_on_pokemon_ability_merge_pokemon_type acts_on_pokemon_stat_merge_pokemon_type acts_on_pokemon_merge_pokemon_ability
  acts_on_type_tbl_merge_pokemon_ability acts_on_ability_merge_pokemon_ability acts_on_stat_merge_pokemon_ability acts_on_pokemon_type_merge_pokemon_ability
  acts_on_pokemon_ability_merge_pokemon_ability acts_on_pokemon_stat_merge_pokemon_ability acts_on_pokemon_merge_pokemon_stat acts_on_type_tbl_merge_pokemon_stat
  acts_on_ability_merge_pokemon_stat acts_on_stat_merge_pokemon_stat acts_on_pokemon_type_merge_pokemon_stat acts_on_pokemon_ability_merge_pokemon_stat
  acts_on_pokemon_stat_merge_pokemon_stat

lemmas keeps_merge =
  keeps_merge_pokemon keeps_merge_type keeps_merge_ability keeps_merge_stat keeps_merge_pokemon_type keeps_merge_pokemon_ability keeps_merge_pokemon_stat


lemma acts_on_upsert_pokemon:
  "acts_on pokemon copy_pokemon (\<lambda>s. upsert_pokemon s tp)"
  "acts_on type_tbl copy_all (\<lambda>s. upsert_pokemon s tp)"
  "acts_on ability copy_all (\<lambda>s. upsert_pokemon s tp)"
  "acts_on stat copy_all (\<lambda>s. upsert_pokemon s tp)"
  "acts_on pokemon_type copy_all (\<lambda>s. upsert_pokemon s tp)"
  "acts_on pokemon_ability copy_all (\<lambda>s. upsert_pokemon s tp)"
  "acts_on pokemon_stat copy_all (\<lambda>s. upsert_pokemon s tp)"
  unfolding upsert_pokemon_def Let_def
  by (intro acts_on_foldl; simp add: case_prod_beta acts_on_merge)+

lemma keeps_upsert_pokemon: "keeps (\<lambda>s. upsert_pokemon s tp)"
  unfolding upsert_pokemon_def Let_def
  by (intro keeps_foldl; simp add: case_prod_beta keeps_merge)

lemma acts_on_upsert_reference_batch:
  "acts_on pokemon copy_pokemon (\<lambda>s. upsert_reference_batch s batch)"
  "acts_on type_tbl copy_all (\<lambda>s. upsert_reference_batch s batch)"
  "acts_on ability copy_all (\<lambda>s. upsert_reference_batch s batch)"
  "acts_on stat copy_all (\<lambda>s. upsert_reference_batch s batch)"
  "acts_on pokemon_type copy_all (\<lambda>s. upsert_reference_batch s batch)"
  "acts_on pokemon_ability copy_all (\<lambda>s. upsert_reference_batch s batch)"
  "acts_on pokemon_stat copy_all (\<lambda>s. upsert_reference_batch s batch)"
  unfolding upsert_reference_batch_def Let_def
  by (cases "ref_maps batch"; simp; intro acts_on_foldl acts_on_id;
      simp add: case_prod_beta acts_on_merge)+

lemma keeps_upsert_reference_batch: "keeps (\<lambda>s. upsert_reference_batch s batch)"
  unfolding upsert_reference_batch_def Let_def
  by (cases "ref_maps batch"; simp; intro keeps_foldl keeps_id; simp add: case_prod_beta keeps_merge)

lemma acts_on_load_batch:
  "acts_on pokemon copy_pokemon (\<lambda>s. fst (load_batch s batch))"
  "acts_on type_tbl copy_all (\<lambda>s. fst (load_batch s batch))"
  "acts_on ability copy_all (\<lambda>s. fst (load_batch s batch))"
  "acts_on stat copy_all (\<lambda>s. fst (load_batch s batch))"
  "acts_on pokemon_type copy_all (\<lambda>s. fst (load_batch s batch))"
  "acts_on pokemon_ability copy_all (\<lambda>s. fst (load_batch s batch))"
  "acts_on pokemon_stat copy_all (\<lambda>s. fst (load_batch s batch))"
  unfolding load_batch_def fst_conv
  by (intro acts_on_foldl acts_on_upsert_reference_batch acts_on_upsert_pokemon)+

lemma keeps_load_batch: "keeps (\<lambda>s. fst (load_batch s batch))"
  unfolding load_batch_def fst_conv
  by (intro keeps_foldl keeps_upsert_reference_batch keeps_upsert_pokemon)

lemma copy_all_absorb: "copy_all (copy_all r a) b = copy_all r b"
  by (simp add: copy_all_def)

lemma copy_all_fresh: "copy_all a a = a"
  by (simp add: copy_all_def)

lemma copy_pokemon_absorb: "copy_pokemon (copy_pokemon r a) b = copy_pokemon r b"
  by (simp add: copy_pokemon_def)

lemma copy_pokemon_fresh:
  "copy_pokemon (if p_loaded_at a = None then a\<lparr> p_loaded_at := Some (clk k) \<rparr> else a) a
     = (if p_loaded_at a = None then a\<lparr> p_loaded_at := Some (clk k) \<rparr> else a)"
  by (simp add: copy_pokemon_def)

lemma reload_generic:
  fixes f :: "store \<Rightarrow> ('k, 'r) table" and g :: "'k \<Rightarrow> 'r \<Rightarrow> 'r"
  assumes act: "acts_on f copy (\<lambda>s. fst (load_batch s batch))"
    and absorb: "\<And>r a b. copy (copy r a) b = copy r b"
    and fresh: "\<And>k a. copy (g k a) a = g k a"
    and d: "distinct (keys (f db))"
    and i: "insert_rows (map (\<lambda>(k, r). (k, g k r))
                 (f (pending (fst (load_batch (SessionLocal clk db) batch)))))
              (f (persistent (fst (load_batch (SessionLocal clk db) batch)))) = Inr (f db1)"
    and e: "f empty_store = []"
  shows "f (persistent (fst (load_batch (SessionLocal clk' db1) batch))) = f db1 \<and>
         f (pending (fst (load_batch (SessionLocal clk' db1) batch))) = [] \<and>
         distinct (keys (f db1))"
proof -
  from act obtain ws where
    ws: "\<And>s. tbl f (fst (load_batch s batch)) = merge_all copy ws (tbl f s)"
    unfolding acts_on_def by blast
  have t0: "tbl f (SessionLocal c x) = (f x, [])" for c x
    by (simp add: tbl_def SessionLocal_def e)
  have m: "merge_all copy ws (f db, []) =
             (f (persistent (fst (load_batch (SessionLocal clk db) batch))),
              f (pending (fst (load_batch (SessionLocal clk db) batch))))"
    using ws[of "SessionLocal clk db"] by (simp add: t0) (simp add: tbl_def)
  from merge_twice[of copy g, OF absorb fresh d m i]
  have "merge_all copy ws (f db1, []) = (f db1, [])" and dd: "distinct (keys (f db1))"
    by simp_all
  with ws[of "SessionLocal clk' db1"] have "tbl f (fst (load_batch (SessionLocal clk' db1) batch)) = (f db1, [])"
    by (simp add: t0)
  then show ?thesis using dd by (simp add: tbl_def)
qed

lemma map_id_pairs: "map (\<lambda>(k, r). (k, r)) b = b"
  by (induction b) auto

lemma flush_Inr:
  "flush s = Inr st \<longleftrightarrow>
     insert_rows (map (server_default (clock s)) (pokemon (pending s))) (pokemon (persistent s))
       = Inr (pokemon st) \<and>
     insert_rows (type_tbl (pending s)) (type_tbl (persistent s)) = Inr (type_tbl st) \<and>
     insert_rows (ability (pending s)) (ability (persistent s)) = Inr (ability st) \<and>
     insert_rows (stat (pending s)) (stat (persistent s)) = Inr (stat st) \<and>
     insert_rows (pokemon_type (pending s)) (pokemon_type (persistent s)) = Inr (pokemon_type st) \<and>
     insert_rows (pokemon_ability (pending s)) (pokemon_ability (persistent s))
       = Inr (pokemon_ability st) \<and>
     insert_rows (pokemon_stat (pending s)) (pokemon_stat (persistent s)) = Inr (pokemon_stat st)"
  unfolding flush_def bind_exn_Inr
  by (cases st) auto

lemma load_Inr:
  "load clk db batch = (Inr n, db1) \<longleftrightarrow>
     n = int (length batch) \<and>
     flush (fst (load_batch (SessionLocal clk db) batch)) = Inr db1 \<and> constraints db1"
  unfolding load_def session_scope_def Let_def commit_def
  by (auto simp: load_batch_def rollback_def split: prod.splits sum.splits if_splits)


text \<open>
  Claim C1: when a load of a batch into a store with unique primary keys commits, a
  second load of the same batch into the resulting store, at any later time, commits the
  very same store: no table gains a row and no field of any row changes, \<^verbatim>\<open>loaded_at\<close>
  included.
\<close>

theorem C1_load_idempotent:
  assumes pk: "primary_keys db"
    and first: "load clk db batch = (Inr n, db1)"
  shows "load clk' db1 batch = (Inr n, db1) \<and> primary_keys db1 \<and>
         row_counts (snd (load clk' db1 batch)) = row_counts db1"
proof -
  let ?s = "fst (load_batch (SessionLocal clk db) batch)"
  let ?s' = "fst (load_batch (SessionLocal clk' db1) batch)"
  from first have n: "n = int (length batch)" and fl: "flush ?s = Inr db1"
    and c: "constraints db1"
    by (simp_all add: load_Inr)
  have ck: "clock ?s = clk"
    using keeps_load_batch[of batch] by (simp add: keeps_def SessionLocal_def)
  note ins = fl[unfolded flush_Inr ck]
  note act = acts_on_load_batch[of batch]
  have sd: "server_default clk =
      (\<lambda>(k, r). (k, if p_loaded_at r = None then r\<lparr> p_loaded_at := Some (clk k) \<rparr> else r))"
    by (auto simp: server_default_def fun_eq_iff)
  have e: "pokemon empty_store = []" "type_tbl empty_store = []" "ability empty_store = []"
    "stat empty_store = []" "pokemon_type empty_store = []" "pokemon_ability empty_store = []"
    "pokemon_stat empty_store = []"
    by (simp_all add: empty_store_def)
  from pk have d: "distinct (keys (pokemon db))" "distinct (keys (type_tbl db))"
    "distinct (keys (ability db))" "distinct (keys (stat db))"
    "distinct (keys (pokemon_type db))" "distinct (keys (pokemon_ability db))"
    "distinct (keys (pokemon_stat db))"
    by (simp_all add: primary_keys_def)
  have 1: "pokemon (persistent ?s') = pokemon db1 \<and> pokemon (pending ?s') = [] \<and>
           distinct (keys (pokemon db1))"
    by (rule reload_generic[of pokemon copy_pokemon batch
          "\<lambda>k r. if p_loaded_at r = None then r\<lparr> p_loaded_at := Some (clk k) \<rparr> else r" db clk])
       (use act d e ins in \<open>simp_all add: copy_pokemon_absorb copy_pokemon_fresh sd\<close>)
  have 2: "type_tbl (persistent ?s') = type_tbl db1 \<and> type_tbl (pending ?s') = [] \<and>
           distinct (keys (type_tbl db1))"
    by (rule reload_generic[of type_tbl copy_all batch "\<lambda>k r. r" db clk])
       (use act d e ins in \<open>simp_all add: copy_all_def map_id_pairs\<close>)
  have 3: "ability (persistent ?s') = ability db1 \<and> ability (pending ?s') = [] \<and>
           distinct (keys (ability db1))"
    by (rule reload_generic[of ability copy_all batch "\<lambda>k r. r" db clk])
       (use act d e ins in \<open>simp_all add: copy_all_def map_id_pairs\<close>)
  have 4: "stat (persistent ?s') = stat db1 \<and> stat (pending ?s') = [] \<and>
           distinct (keys (stat db1))"
    by (rule reload_generic[of stat copy_all batch "\<lambda>k r. r" db clk])
       (use act d e ins in \<open>simp_all add: copy_all_def map_id_pairs\<close>)
  have 5: "pokemon_type (persistent ?s') = pokemon_type db1 \<and> pokemon_type (pending ?s') = [] \<and>
           distinct (keys (pokemon_type db1))"
    by (rule reload_generic[of pokemon_type copy_all batch "\<lambda>k r. r" db clk])
       (use act d e ins in \<open>simp_all add: copy_all_def map_id_pairs\<close>)
  have 6: "pokemon_ability (persistent ?s') = pokemon_ability db1 \<and>
           pokemon_ability (pending ?s') = [] \<and> distinct (keys (pokemon_ability db1))"
    by (rule reload_generic[of pokemon_ability copy_all batch "\<lambda>k r. r" db clk])
       (use act d e ins in \<open>simp_all add: copy_all_def map_id_pairs\<close>)
  have 7: "pokemon_stat (persistent ?s') = pokemon_stat db1 \<and> pokemon_stat (pending ?s') = [] \<and>
           distinct (keys (pokemon_stat db1))"
    by (rule reload_generic[of pokemon_stat copy_all batch "\<lambda>k r. r" db clk])
       (use act d e ins in \<open>simp_all add: copy_all_def map_id_pairs\<close>)
  have "flush ?s' = Inr db1"
    unfolding flush_Inr using 1 2 3 4 5 6 7 by simp
  with c n have again: "load clk' db1 batch = (Inr n, db1)" by (simp add: load_Inr)
  moreover have "primary_keys db1" using 1 2 3 4 5 6 7 by (simp add: primary_keys_def)
  ultimately show ?thesis by simp
qed




theorem C1_load_idempotent_witness:
  "load (\<lambda>k. 7) sample_store [sample_record] = (Inr 1, sample_store)"
proof -
  have "primary_keys empty_store" by (simp add: primary_keys_def empty_store_def keys_def)
  from C1_load_idempotent[OF this load_sample, of "\<lambda>k. 7"] show ?thesis by simp
qed

section \<open>Properties of the float arithmetic\<close>

lemma two_powi_pos [simp]: "0 < (2::rat) powi k"
  by (simp add: power_int_def)

lemma two_powi_mono: "k \<le> l \<Longrightarrow> (2::rat) powi k \<le> 2 powi l"
  by (rule power_int_increasing) simp_all

lemma two_powi_strict_mono: "k < l \<Longrightarrow> (2::rat) powi k < 2 powi l"
  by (rule power_int_strict_increasing) simp_all

lemma two_powi_nat: "0 \<le> k \<Longrightarrow> (2::rat) powi k = 2 ^ nat k"
  by (simp add: power_int_def)

lemma bitlen_rat_bounds:
  assumes "0 < p"
  shows "(2::rat) powi (bitlen p - 1) \<le> of_int p" and "of_int p < (2::rat) powi (bitlen p)"
proof -
  from bitlen_bounds[OF assms]
  have l: "2 ^ nat (bitlen p - 1) \<le> p" and u: "p < 2 ^ nat (bitlen p)" by simp_all
  have b1: "1 \<le> bitlen p" using assms by (auto simp: bitlen_alt_def)
  have "(of_int (2 ^ nat (bitlen p - 1)) :: rat) \<le> of_int p" using l by (simp only: of_int_le_iff)
  then show "(2::rat) powi (bitlen p - 1) \<le> of_int p"
    using b1 by (simp add: two_powi_nat)
  have "(of_int p :: rat) < of_int (2 ^ nat (bitlen p))" using u by (simp only: of_int_less_iff)
  then show "of_int p < (2::rat) powi (bitlen p)"
    using b1 by (simp add: two_powi_nat)
qed

lemma ilog2_bounds:
  assumes "0 < a"
  shows "2 powi (ilog2 a) \<le> a" and "a < 2 powi (ilog2 a + 1)"
proof -
  obtain p d where q: "quotient_of a = (p, d)" by (cases "quotient_of a")
  then have d: "0 < d" and a: "a = of_int p / of_int d"
    by (simp_all add: quotient_of_denom_pos quotient_of_div)
  from assms a d have p: "0 < p" by (simp add: zero_less_divide_iff)
  let ?e = "bitlen p - bitlen d"
  note bp = bitlen_rat_bounds[OF p] and bd = bitlen_rat_bounds[OF d]
  have dpos: "(0::rat) < of_int d" using d by simp
  have up: "a < 2 powi (?e + 1)"
  proof -
    have "a < 2 powi (bitlen p) / of_int d"
      unfolding a using bp(2) dpos by (simp add: divide_strict_right_mono)
    also have "\<dots> \<le> 2 powi (bitlen p) / 2 powi (bitlen d - 1)"
      using bd(1) by (simp add: frac_le)
    also have "\<dots> = 2 powi (?e + 1)"
      by (simp add: power_int_diff[symmetric] algebra_simps)
    finally show ?thesis .
  qed
  have lo: "2 powi (?e - 1) \<le> a"
  proof -
    have "(2::rat) powi (?e - 1) = 2 powi (bitlen p - 1) / 2 powi (bitlen d)"
      by (simp add: power_int_diff[symmetric] algebra_simps)
    also have "\<dots> \<le> of_int p / 2 powi (bitlen d)"
      using bp(1) by (simp add: divide_right_mono)
    also have "\<dots> \<le> of_int p / of_int d"
      using bd(2) p dpos by (simp add: frac_le)
    finally show ?thesis by (simp add: a)
  qed
  have il: "ilog2 a = (if 2 powi ?e \<le> a then ?e else ?e - 1)"
    by (simp add: ilog2_def q Let_def)
  show "2 powi (ilog2 a) \<le> a" using lo by (simp add: il)
  show "a < 2 powi (ilog2 a + 1)" using up by (auto simp: il not_le)
qed

lemma ilog2_ge: "0 < a \<Longrightarrow> 2 powi k \<le> a \<Longrightarrow> k \<le> ilog2 a"
proof (rule ccontr)
  assume a: "0 < a" "2 powi k \<le> a" and "\<not> k \<le> ilog2 a"
  then have "ilog2 a + 1 \<le> k" by simp
  then have "(2::rat) powi (ilog2 a + 1) \<le> 2 powi k" by (rule two_powi_mono)
  with ilog2_bounds(2)[OF a(1)] a(2) show False by simp
qed

lemma ilog2_lt: "0 < a \<Longrightarrow> a < 2 powi k \<Longrightarrow> ilog2 a < k"
proof (rule ccontr)
  assume a: "0 < a" "a < 2 powi k" and "\<not> ilog2 a < k"
  then have "(2::rat) powi k \<le> 2 powi (ilog2 a)" by (intro two_powi_mono) simp
  with ilog2_bounds(1)[OF a(1)] a(2) show False by simp
qed

lemma round_half_even_bounds:
  "x - 1 / 2 \<le> of_int (round_half_even x)" "of_int (round_half_even x) \<le> x + 1 / 2"
proof -
  let ?f = "\<lfloor>x\<rfloor>"
  have f: "of_int ?f \<le> x" "x < of_int ?f + 1" by linarith+
  consider (lo) "x - of_int ?f < 1 / 2" | (hi) "1 / 2 < x - of_int ?f"
    | (tie) "x - of_int ?f = 1 / 2"
    by linarith
  then have "x - 1 / 2 \<le> of_int (round_half_even x) \<and> of_int (round_half_even x) \<le> x + 1 / 2"
  proof cases
    case lo
    then have r: "round_half_even x = ?f" by (simp add: round_half_even_def Let_def)
    show ?thesis unfolding r using lo f by linarith
  next
    case hi
    then have r: "round_half_even x = ?f + 1" by (simp add: round_half_even_def Let_def)
    show ?thesis unfolding r of_int_add of_int_1 using hi f by linarith
  next
    case tie
    then have "round_half_even x = ?f \<or> round_half_even x = ?f + 1"
      by (simp add: round_half_even_def Let_def)
    then show ?thesis
    proof
      assume r: "round_half_even x = ?f"
      show ?thesis unfolding r using tie by linarith
    next
      assume r: "round_half_even x = ?f + 1"
      show ?thesis unfolding r of_int_add of_int_1 using tie by linarith
    qed
  qed
  then show "x - 1 / 2 \<le> of_int (round_half_even x)" "of_int (round_half_even x) \<le> x + 1 / 2"
    by simp_all
qed

lemma round_half_even_ge_floor: "\<lfloor>x\<rfloor> \<le> round_half_even x"
  by (auto simp: round_half_even_def Let_def)

lemma round_half_even_of_int [simp]: "round_half_even (of_int n) = n"
  by (simp add: round_half_even_def Let_def)

lemma round_half_even_nonneg: "0 \<le> x \<Longrightarrow> 0 \<le> round_half_even x"
  using round_half_even_ge_floor[of x] by (metis order_trans zero_le_floor)

lemma floor_half: "1 \<le> (y::rat) \<Longrightarrow> y / 2 \<le> of_int \<lfloor>y\<rfloor>"
proof -
  assume y: "1 \<le> y"
  then have "1 \<le> \<lfloor>y\<rfloor>" by (simp add: le_floor_iff)
  then have "(1::rat) \<le> of_int \<lfloor>y\<rfloor>" by (metis of_int_1_le_iff)
  moreover have "y < of_int \<lfloor>y\<rfloor> + 1" by linarith
  ultimately show ?thesis by linarith
qed

text \<open>The scaled magnitude is at least 1 from the smallest subnormal on.\<close>

lemma scaled_ge_1:
  assumes a: "0 < a" and s: "2 powi (- 1074) \<le> a"
  shows "1 \<le> a / 2 powi (max (ilog2 a - 52) (- 1074))"
proof (cases "- 1074 \<le> ilog2 a - 52")
  case True
  then have e: "max (ilog2 a - 52) (- 1074) = ilog2 a - 52" by simp
  have "(2::rat) powi (ilog2 a - 52) \<le> 2 powi (ilog2 a)" by (rule two_powi_mono) simp
  also have "\<dots> \<le> a" by (rule ilog2_bounds(1)[OF a])
  finally show ?thesis by (simp add: e)
next
  case False
  then have e: "max (ilog2 a - 52) (- 1074) = - 1074" by simp
  show ?thesis using s by (simp add: e)
qed

lemma round_double_cases:
  "q \<noteq> 0 \<Longrightarrow>
   round_double q =
     (let e = max (ilog2 \<bar>q\<bar> - 52) (- 1074); m = round_half_even (\<bar>q\<bar> / 2 powi e)
      in if 971 < e \<or> (e = 971 \<and> 2 ^ 53 \<le> m) then (if 0 < q then PosInf else NegInf)
         else Finite (if 0 < q then of_int m * 2 powi e else - (of_int m * 2 powi e)))"
  by (simp add: round_double_def Let_def)

lemma round_double_pos:
  assumes q: "0 < q" and s: "2 powi (- 1074) \<le> q"
  shows "float_gt0 (round_double q)" and "round_double q = Finite v \<Longrightarrow> q / 2 \<le> v"
proof -
  let ?e = "max (ilog2 \<bar>q\<bar> - 52) (- 1074)"
  let ?y = "\<bar>q\<bar> / 2 powi ?e"
  let ?m = "round_half_even ?y"
  have aq: "\<bar>q\<bar> = q" using q by simp
  have y1: "1 \<le> ?y" using scaled_ge_1[of "\<bar>q\<bar>"] q s by simp
  have "?y / 2 \<le> of_int \<lfloor>?y\<rfloor>" by (rule floor_half[OF y1])
  also have "\<dots> \<le> of_int ?m" using round_half_even_ge_floor[of ?y] by (simp only: of_int_le_iff)
  finally have m: "?y / 2 \<le> of_int ?m" .
  have "q / 2 = (?y / 2) * 2 powi ?e" by (simp add: aq)
  also have "\<dots> \<le> of_int ?m * 2 powi ?e"
    using m by (intro mult_right_mono) simp_all
  finally have v: "q / 2 \<le> of_int ?m * 2 powi ?e" .
  from q have nz: "q \<noteq> 0" by simp
  show "float_gt0 (round_double q)"
    using v q by (auto simp: round_double_cases[OF nz] Let_def float_gt0_def)
  show "round_double q = Finite v \<Longrightarrow> q / 2 \<le> v"
    using v q by (auto simp: round_double_cases[OF nz] Let_def split: if_splits)
qed

lemma round_double_nonpos: "q \<le> 0 \<Longrightarrow> \<not> float_gt0 (round_double q)"
proof (cases "q = 0")
  case True
  then show ?thesis by (simp add: round_double_def float_gt0_def)
next
  case False
  assume "q \<le> 0"
  with False have q: "q < 0" by simp
  let ?e = "max (ilog2 \<bar>q\<bar> - 52) (- 1074)"
  have "0 \<le> \<bar>q\<bar> / 2 powi ?e" by simp
  then have "0 \<le> round_half_even (\<bar>q\<bar> / 2 powi ?e)" by (rule round_half_even_nonneg)
  then have "(0::rat) \<le> of_int (round_half_even (\<bar>q\<bar> / 2 powi ?e)) * 2 powi ?e" by simp
  then show ?thesis
    using q by (auto simp: round_double_cases[OF False] Let_def float_gt0_def)
qed

lemma round_double_nonpos_value: "q \<le> 0 \<Longrightarrow> round_double q = Finite v \<Longrightarrow> v \<le> 0"
  using round_double_nonpos[of q] by (simp add: float_gt0_def not_less)

lemma int_truediv_float_gt0:
  assumes "int_truediv_float h (Finite 100) = Inr m"
  shows "float_gt0 m \<longleftrightarrow> 0 < h"
proof -
  from assms obtain x where x: "round_double (of_int h) = Finite x"
    and m: "m = round_double (x / 100)"
    by (auto simp: int_truediv_float_def float_of_int_def bind_exn_Inr float_truediv_def
        float_is_zero_def split: pyfloat.splits if_splits)
  show ?thesis
  proof (cases "0 < h")
    case True
    then have h1: "(1::rat) \<le> of_int h" by simp
    have "(2::rat) powi (- 1074) \<le> 2 powi 0" by (rule two_powi_mono) simp
    then have s: "(2::rat) powi (- 1074) \<le> 1" by simp
    have hq: "(0::rat) < of_int h" using True by simp
    have "of_int h / 2 \<le> x" using round_double_pos(2)[OF hq _ x] s h1 by simp
    with h1 have x2: "1 / 2 \<le> x" by simp
    have "(2::rat) powi (- 1074) \<le> 2 powi (- 8)" by (rule two_powi_mono) simp
    also have "\<dots> \<le> 1 / 200" by (simp add: power_int_minus)
    also have "\<dots> \<le> x / 100" using x2 by simp
    finally have "2 powi (- 1074) \<le> x / 100" .
    moreover have "0 < x / 100" using x2 by simp
    ultimately have "float_gt0 (round_double (x / 100))" by (intro round_double_pos(1))
    with True m show ?thesis by simp
  next
    case False
    then have "(of_int h :: rat) \<le> 0" by simp
    from round_double_nonpos_value[OF this x] have "x / 100 \<le> 0" by simp
    from round_double_nonpos[OF this] False m show ?thesis by simp
  qed
qed

lemma bmi_Inr:
  assumes "bmi h wk = Inr b"
  shows "(b = None \<longleftrightarrow> h \<le> 0) \<and>
         (0 < h \<longrightarrow> (\<exists>m v. int_truediv_float h (Finite 100) = Inr m \<and>
                         float_truediv wk (float_mul m m) = Inr v \<and> b = Some v))"
proof -
  from assms obtain m where m: "int_truediv_float h (Finite 100) = Inr m"
    and r: "(if float_gt0 m
             then bind_exn (float_truediv wk (float_mul m m)) (\<lambda>b. Inr (Some b))
             else Inr None) = Inr b"
    by (auto simp: bmi_def bind_exn_Inr)
  note g = int_truediv_float_gt0[OF m]
  show ?thesis
  proof (cases "0 < h")
    case True
    with g r obtain v where "float_truediv wk (float_mul m m) = Inr v" "b = Some v"
      by (auto simp: bind_exn_Inr)
    with True m show ?thesis by auto
  next
    case False
    with g r show ?thesis by auto
  qed
qed


section \<open>Unit conversion and the derived metric\<close>

lemma round_double_of_int:
  assumes "\<bar>n\<bar> < 2 ^ 53"
  shows "round_double (of_int n) = Finite (of_int n)"
proof (cases "n = 0")
  case True
  then show ?thesis by (simp add: round_double_def)
next
  case False
  let ?a = "\<bar>of_int n :: rat\<bar>"
  let ?E = "ilog2 ?a"
  have "1 \<le> \<bar>n\<bar>" using False by simp
  then have "(1::rat) \<le> of_int \<bar>n\<bar>" by (simp only: of_int_1_le_iff)
  then have a1: "1 \<le> ?a" by simp
  then have a0: "0 < ?a" by simp
  have "(2::rat) powi 0 \<le> ?a" using a1 by simp
  from ilog2_ge[OF a0 this] have E0: "0 \<le> ?E" .
  have "?a < 2 ^ 53"
  proof -
    have "(of_int \<bar>n\<bar> :: rat) < of_int (2 ^ 53)" using assms by (simp only: of_int_less_iff)
    then show ?thesis by simp
  qed
  then have "?a < 2 powi 53" by (simp add: two_powi_nat)
  from ilog2_lt[OF a0 this] have E53: "?E < 53" .
  have e: "max (?E - 52) (- 1074) = ?E - 52" using E0 by simp
  have sc: "?a / 2 powi (?E - 52) = of_int (\<bar>n\<bar> * 2 ^ nat (52 - ?E))"
  proof -
    have "?a / 2 powi (?E - 52) = ?a * 2 powi (52 - ?E)"
      by (simp add: power_int_diff field_simps)
    also have "\<dots> = ?a * 2 ^ nat (52 - ?E)" using E53 by (simp add: two_powi_nat)
    finally show ?thesis by simp
  qed
  have bk: "of_int (\<bar>n\<bar> * 2 ^ nat (52 - ?E)) * 2 powi (?E - 52) = ?a"
  proof -
    have "(of_int (\<bar>n\<bar> * 2 ^ nat (52 - ?E)) :: rat) = ?a / 2 powi (?E - 52)" using sc by simp
    then show ?thesis by simp
  qed
  have nz: "(of_int n :: rat) \<noteq> 0" using False by simp
  have "round_double (of_int n) =
          Finite (if 0 < (of_int n :: rat) then ?a else - ?a)"
    unfolding round_double_cases[OF nz] Let_def e sc round_half_even_of_int bk
    using E53 by simp
  then show ?thesis by (simp add: abs_if)
qed

lemma round_double_error:
  assumes q: "0 < q" and lo: "- 1022 \<le> ilog2 q" and hi: "ilog2 q \<le> 1022"
  shows "\<exists>v. round_double q = Finite v \<and> \<bar>v - q\<bar> \<le> q * 2 powi (- 53)"
proof -
  let ?E = "ilog2 q"
  let ?y = "q / 2 powi (?E - 52)"
  let ?m = "round_half_even ?y"
  have aq: "\<bar>q\<bar> = q" using q by simp
  have e: "max (?E - 52) (- 1074) = ?E - 52" using lo by simp
  from q have nz: "q \<noteq> 0" by simp
  have rd: "round_double q = Finite (of_int ?m * 2 powi (?E - 52))"
    unfolding round_double_cases[OF nz] Let_def aq e using q hi by simp
  have "\<bar>of_int ?m - ?y\<bar> \<le> 1 / 2"
    using round_half_even_bounds[of ?y] by linarith
  then have "\<bar>of_int ?m - ?y\<bar> * 2 powi (?E - 52) \<le> 1 / 2 * 2 powi (?E - 52)"
    by (intro mult_right_mono) simp_all
  moreover have "\<bar>of_int ?m - ?y\<bar> * 2 powi (?E - 52) = \<bar>of_int ?m * 2 powi (?E - 52) - q\<bar>"
  proof -
    have "\<bar>of_int ?m - ?y\<bar> * 2 powi (?E - 52) = \<bar>(of_int ?m - ?y) * 2 powi (?E - 52)\<bar>"
      by (simp add: abs_mult)
    also have "(of_int ?m - ?y) * 2 powi (?E - 52) = of_int ?m * 2 powi (?E - 52) - q"
      by (simp add: left_diff_distrib)
    finally show ?thesis .
  qed
  moreover have "1 / 2 * (2::rat) powi (?E - 52) = 2 powi ?E * 2 powi (- 53)"
  proof -
    have "(2::rat) powi (?E - 52) = 2 powi (?E + (- 53) + 1)" by simp
    also have "\<dots> = 2 powi (?E + (- 53)) * 2 powi 1"
      by (rule power_int_add) simp
    also have "(2::rat) powi (?E + (- 53)) = 2 powi ?E * 2 powi (- 53)"
      by (rule power_int_add) simp
    finally show ?thesis by simp
  qed
  moreover have "(2::rat) powi ?E * 2 powi (- 53) \<le> q * 2 powi (- 53)"
    using ilog2_bounds(1)[OF q] by (intro mult_right_mono) simp_all
  ultimately have "\<bar>of_int ?m * 2 powi (?E - 52) - q\<bar> \<le> q * 2 powi (- 53)" by simp
  with rd show ?thesis by blast
qed

lemma to_kg_Inr:
  assumes "to_kg w = Inr k"
  shows "\<exists>x. float_of_int w = Inr (Finite x) \<and> k = round_double (x / 10)"
  using assms
  by (auto simp: to_kg_def int_truediv_float_def float_of_int_def bind_exn_Inr float_truediv_def
      float_is_zero_def split: pyfloat.splits if_splits)

lemma to_kg_small:
  assumes k: "to_kg w = Inr k" and w0: "0 \<le> w" and w: "w < 2 ^ 53"
  shows "k = round_double (of_int w / 10)"
    and "\<exists>v. k = Finite v \<and> \<bar>v - of_int w / 10\<bar> \<le> of_int w / 10 * 2 powi (- 53)"
proof -
  have "\<bar>w\<bar> < 2 ^ 53" using w0 w by simp
  from round_double_of_int[OF this] have x: "float_of_int w = Inr (Finite (of_int w))"
    by (simp add: float_of_int_def)
  with to_kg_Inr[OF k] show eq: "k = round_double (of_int w / 10)" by simp
  show "\<exists>v. k = Finite v \<and> \<bar>v - of_int w / 10\<bar> \<le> of_int w / 10 * 2 powi (- 53)"
  proof (cases "w = 0")
    case True
    then show ?thesis by (simp add: eq round_double_def)
  next
    case False
    with w0 have w1: "(1::rat) \<le> of_int w" by simp
    let ?q = "of_int w / 10 :: rat"
    have q0: "0 < ?q" using w1 by simp
    have "(2::rat) powi (- 4) \<le> 1 / 10" by (simp add: power_int_minus)
    also have "\<dots> \<le> ?q" using w1 by simp
    finally have "- 4 \<le> ilog2 ?q" by (intro ilog2_ge q0)
    then have lo: "- 1022 \<le> ilog2 ?q" by simp
    have "(of_int w :: rat) < of_int (2 ^ 53)" using w by (simp only: of_int_less_iff)
    then have "(of_int w :: rat) < 2 ^ 53" by simp
    then have "?q < 2 ^ 50" by simp
    then have "?q < 2 powi 50" by (simp add: two_powi_nat)
    then have "ilog2 ?q < 50" by (intro ilog2_lt q0)
    then have hi: "ilog2 ?q \<le> 1022" by simp
    from round_double_error[OF q0 lo hi] show ?thesis by (simp add: eq)
  qed
qed

text \<open>
  Claim C3, amended: for non-negative integer raw height and weight, \<^verbatim>\<open>height_cm\<close> is
  the raw height times 10, exactly. \<^verbatim>\<open>weight_kg\<close> is the float quotient of the raw weight
  by \<^verbatim>\<open>10.0\<close>: for a raw weight below \<open>2 ^ 53\<close> it is the raw weight divided by 10 and
  rounded to the nearest double, within the relative error \<open>2 ^ - 53\<close> of the exact
  quotient, and not the exact quotient in general.
\<close>

theorem C3_unit_conversion:
  assumes t: "transform_one py payload = Inr r"
    and h: "py_getitem payload ''height'' = Inr (JInt h)"
    and w: "py_getitem payload ''weight'' = Inr (JInt w)"
    and h0: "0 \<le> h" and w0: "0 \<le> w"
  shows "tp_height_cm r = h * 10 \<and>
         (\<exists>x. float_of_int w = Inr (Finite x) \<and> tp_weight_kg r = round_double (x / 10)) \<and>
         (w < 2 ^ 53 \<longrightarrow>
            tp_weight_kg r = round_double (of_int w / 10) \<and>
            (\<exists>v. tp_weight_kg r = Finite v \<and>
                 \<bar>v - of_int w / 10\<bar> \<le> of_int w / 10 * 2 powi (- 53)))"
proof -
  from transform_one_Inr[OF t] h w
  have ht: "tp_height_cm r = to_cm h" and k: "to_kg w = Inr (tp_weight_kg r)"
    by (auto simp: py_int_def)
  from ht have 1: "tp_height_cm r = h * 10" by (simp add: to_cm_def)
  note 2 = to_kg_Inr[OF k]
  have 3: "w < 2 ^ 53 \<longrightarrow>
            tp_weight_kg r = round_double (of_int w / 10) \<and>
            (\<exists>v. tp_weight_kg r = Finite v \<and>
                 \<bar>v - of_int w / 10\<bar> \<le> of_int w / 10 * 2 powi (- 53))"
    using to_kg_small[OF k w0] by blast
  from 1 2 3 show ?thesis by blast
qed

text \<open>
  Claim C2, amended: for every payload the transform accepts, \<^verbatim>\<open>bmi\<close> is \<^verbatim>\<open>None\<close> if and
  only if \<^verbatim>\<open>height_cm <= 0\<close> (the guard is \<^verbatim>\<open>m > 0\<close>), and when \<^verbatim>\<open>height_cm > 0\<close> it
  is the float quotient \<^verbatim>\<open>weight_kg / (m * m)\<close> with \<^verbatim>\<open>m = height_cm / 100.0\<close>, every
  operation rounded to a double.
\<close>

theorem C2_bmi_guard:
  assumes t: "transform_one py payload = Inr r"
  shows "(tp_bmi r = None \<longleftrightarrow> tp_height_cm r \<le> 0) \<and>
         (0 < tp_height_cm r \<longrightarrow>
            (\<exists>m v. int_truediv_float (tp_height_cm r) (Finite 100) = Inr m \<and>
                   float_truediv (tp_weight_kg r) (float_mul m m) = Inr v \<and>
                   tp_bmi r = Some v))"
proof -
  from transform_one_Inr[OF t]
  have "bmi (tp_height_cm r) (tp_weight_kg r) = Inr (tp_bmi r)" by auto
  from bmi_Inr[OF this] show ?thesis .
qed

lemma bmi_negative:
  "bmi (- 10) (Finite (3884354678607053 / 562949953421312)) = Inr None"
  by code_simp

text \<open>
  Claim C2, as stated, at a payload with the raw height \<open>- 1\<close>: the transform accepts it,
  \<^verbatim>\<open>height_cm\<close> is \<open>- 10\<close>, not 0, and \<^verbatim>\<open>bmi\<close> is \<^verbatim>\<open>None\<close>.
\<close>

theorem C2_bmi_guard_counterexample:
  "transform_one (\<lambda>v. [])
     (JDict [(''id'', JInt 1), (''name'', JStr ''bulbasaur''), (''height'', JInt (- 1)),
             (''weight'', JInt 69)]) =
   Inr \<lparr> tp_id = 1, tp_name = ''bulbasaur'', tp_base_experience = JNull,
         tp_height_cm = - 10,
         tp_weight_kg = Finite (3884354678607053 / 562949953421312),
         tp_bmi = None,
         tp_sprite_url = JNull, tp_types = [], tp_abilities = [], tp_stats = [] \<rparr>"
proof -
  have "bmi (to_cm (- 1)) (Finite (3884354678607053 / 562949953421312)) = Inr None"
    by (simp add: to_cm_def bmi_negative)
  from transform_one_minimal[OF to_kg_69 this] show ?thesis by simp
qed

text \<open>
  Claim C3, as stated, at the sample payload with the raw weight 69: \<^verbatim>\<open>weight_kg\<close> is the
  double nearest to 6.9, which is not 69 / 10.
\<close>

theorem C3_unit_conversion_counterexample:
  "transform_one (\<lambda>v. []) sample_pokemon_payload = Inr sample_record \<and>
   tp_weight_kg sample_record = Finite (3884354678607053 / 562949953421312) \<and>
   (3884354678607053 / 562949953421312 :: rat) \<noteq> 69 / 10"
  by (simp add: transform_sample sample_record_def)

theorem C3_unit_conversion_witness:
  "tp_height_cm sample_record = 7 * 10 \<and>
   tp_weight_kg sample_record = round_double (of_int 69 / 10) \<and>
   (\<exists>v. tp_weight_kg sample_record = Finite v \<and>
        \<bar>v - of_int 69 / 10\<bar> \<le> of_int 69 / 10 * 2 powi (- 53))"
proof -
  have h: "py_getitem sample_pokemon_payload ''height'' = Inr (JInt 7)"
    and w: "py_getitem sample_pokemon_payload ''weight'' = Inr (JInt 69)"
    by (simp_all add: sample_pokemon_payload_def py_getitem_def)
  have a: "0 \<le> (7::int)" "0 \<le> (69::int)" "(69::int) < 2 ^ 53" by simp_all
  from C3_unit_conversion[OF transform_sample[of "\<lambda>v. []"] h w a(1) a(2)] a(3) show ?thesis by blast
qed

theorem C2_bmi_guard_witness:
  "(tp_bmi sample_record = None) = (tp_height_cm sample_record \<le> 0) \<and>
   (\<exists>m v. int_truediv_float (tp_height_cm sample_record) (Finite 100) = Inr m \<and>
          float_truediv (tp_weight_kg sample_record) (float_mul m m) = Inr v \<and>
          tp_bmi sample_record = Some v)"
proof -
  have "0 < tp_height_cm sample_record" by (simp add: sample_record_def)
  with C2_bmi_guard[OF transform_sample[of "\<lambda>v. []"]] show ?thesis by blast
qed


end
